theory Spec2Isabelle
  imports Main "HOL-Library.AList"
begin

section \<open>The menu model\<close>

text \<open>
  Modelled from the spec: the declarations of \<open>IMenu\<close> and \<open>MenuItem\<close> live in
  \<open>models/app-menu\<close>, which is not among the sources.  The spec describes a menu model
  as a finite tree whose items are separators, leaf commands or submenu containers; the
  fields below are the ones \<open>no-changes.tsx\<close> reads (\<open>id\<close>, \<open>label\<close>, \<open>enabled\<close>,
  \<open>accelerator\<close>, \<open>menu\<close>, \<open>items\<close>).  A \<open>null\<close> accelerator is \<open>None\<close>.
\<close>

datatype MenuItem =
    Separator (item_id: string)
  | Item (item_id: string) (item_label: string) (item_enabled: bool)
      (item_accelerator: "string option")
  | SubmenuItem (item_id: string) (item_label: string) (item_enabled: bool)
      (item_menu: IMenu)
and IMenu = Menu (items: "MenuItem list")

text \<open>The interface \<open>IMenuItemInfo\<close>.\<close>

record IMenuItemInfo =
  label :: string
  acceleratorKeys :: "string list"
  parentMenuLabels :: "string list"
  enabled :: bool

text \<open>
  A JavaScript \<open>Map<string, IMenuItemInfo>\<close>: \<open>set\<close> replaces the value of a key that is
  present, keeping its place, and appends a new key at the end, which is what
  \<open>AList.update\<close> does; \<open>get\<close> is \<open>map_of\<close>, with \<open>None\<close> for \<open>undefined\<close>.
\<close>

type_synonym MenuInfoMap = "(string \<times> IMenuItemInfo) list"

section \<open>Accelerator keys\<close>

text \<open>
  \<open>String.prototype.split\<close> with a one-character separator: the string is scanned once,
  \<open>cur\<close> holding the token read so far (reversed).  The empty string splits into one
  empty token.
\<close>

fun split_from :: "char \<Rightarrow> string \<Rightarrow> string \<Rightarrow> string list" where
  "split_from sep cur [] = [rev cur]"
| "split_from sep cur (c # cs) =
     (if c = sep then rev cur # split_from sep [] cs else split_from sep (c # cur) cs)"

definition split :: "string \<Rightarrow> char \<Rightarrow> string list" where
  "split s sep = split_from sep [] s"

text \<open>\<open>Array.prototype.join\<close>.\<close>

fun join :: "string list \<Rightarrow> string \<Rightarrow> string" where
  "join [] sep = []"
| "join [x] sep = x"
| "join (x # y # ys) sep = x @ sep @ join (y # ys) sep"

text \<open>
  \<open>getItemAcceleratorKeys\<close>.  The lookup \<open>getPlatformSpecificNameOrSymbolForModifier\<close>
  is imported from \<open>lib/menu-item\<close> and is a parameter here.
\<close>

fun getItemAcceleratorKeys :: "(string \<Rightarrow> string) \<Rightarrow> MenuItem \<Rightarrow> string list" where
  "getItemAcceleratorKeys platformName (Separator i) = []"
| "getItemAcceleratorKeys platformName (SubmenuItem i l e m) = []"
| "getItemAcceleratorKeys platformName (Item i l e None) = []"
| "getItemAcceleratorKeys platformName (Item i l e (Some accelerator)) =
     map platformName (split accelerator (CHR ''+''))"

section \<open>The menu index builder\<close>

text \<open>
  The object literal \<open>infoItem\<close> of \<open>buildMenuItemInfoMap\<close>; \<open>parent\<close> is \<open>None\<close> when
  the argument is \<open>undefined\<close>.
\<close>

definition infoItem :: "(string \<Rightarrow> string) \<Rightarrow> MenuItem \<Rightarrow> IMenuItemInfo option \<Rightarrow> IMenuItemInfo" where
  "infoItem platformName item parent =
     \<lparr> label = item_label item,
       acceleratorKeys = getItemAcceleratorKeys platformName item,
       parentMenuLabels =
         (case parent of None \<Rightarrow> [] | Some p \<Rightarrow> label p # parentMenuLabels p),
       enabled = item_enabled item \<rparr>"

text \<open>
  \<open>buildMenuItemInfoMap\<close>: the \<open>for\<close> loop over \<open>menu.items\<close> is \<open>buildItems\<close>; the map
  that the source mutates is passed along and returned.
\<close>

fun buildMenuItemInfoMap ::
    "(string \<Rightarrow> string) \<Rightarrow> IMenu \<Rightarrow> MenuInfoMap \<Rightarrow> IMenuItemInfo option \<Rightarrow> MenuInfoMap"
and buildItems ::
    "(string \<Rightarrow> string) \<Rightarrow> MenuItem list \<Rightarrow> MenuInfoMap \<Rightarrow> IMenuItemInfo option \<Rightarrow> MenuInfoMap"
where
  "buildMenuItemInfoMap platformName (Menu its) m parent = buildItems platformName its m parent"
| "buildItems platformName [] m parent = m"
| "buildItems platformName (Separator i # rest) m parent =
     buildItems platformName rest m parent"
| "buildItems platformName (Item i l e a # rest) m parent =
     buildItems platformName rest
       (AList.update i (infoItem platformName (Item i l e a) parent) m) parent"
| "buildItems platformName (SubmenuItem i l e sub # rest) m parent =
     (let info = infoItem platformName (SubmenuItem i l e sub) parent;
          m1 = AList.update i info m;
          m2 = buildMenuItemInfoMap platformName sub m1 (Some info)
      in buildItems platformName rest m2 parent)"

section \<open>The rendered tree\<close>

text \<open>
  The methods \<open>open\<close>, \<open>openPreferences\<close> and \<open>onPublishRepositoryClicked\<close> of the
  component, passed as \<open>onClick\<close> handlers.
\<close>

datatype Handler = Open | OpenPreferences | OnPublishRepositoryClicked

text \<open>
  What \<open>render\<close> returns: \<open>null\<close>, a string, a host element (tag, attributes, children),
  a fragment, an array of elements, or one of the components \<open>LinkButton\<close>,
  \<open>MenuBackedBlankslateAction\<close> (title, description, discoverabilityContent, menuItemId,
  buttonText) and \<open>BlankslateAction\<close> (title, description, discoverabilityContent,
  buttonText, onClick, type).  An omitted \<open>description\<close> is \<open>None\<close>.
\<close>

datatype Node =
    Null
  | Text string
  | Element string "(string \<times> string) list" "Node list"
  | Fragment "Node list"
  | Array "Node list"
  | LinkButton Handler "Node list"
  | MenuBackedBlankslateAction string "Node option" Node string string
  | BlankslateAction string string Node string Handler string

section \<open>The component\<close>

text \<open>
  What a click handler asks of its collaborators: \<open>revealInFileManager\<close>,
  \<open>executeMenuItemById\<close> and the dispatcher's \<open>showPopup\<close> are imported, so a call is
  recorded as a value.
\<close>

datatype 'repo Popup = PublishRepository 'repo

datatype 'repo Call =
    RevealInFileManager 'repo string
  | ExecuteMenuItemById string
  | ShowPopup "'repo Popup"

text \<open>
  \<open>IRepositoryState\<close> is imported from \<open>lib/app-state\<close>; only its \<open>remote\<close> field is
  read, \<open>None\<close> standing for \<open>null\<close>.
\<close>

record 'remote IRepositoryState =
  remote :: "'remote option"

text \<open>
  A menu object is known by its reference; \<open>appMenu\<close> is \<open>None\<close> when \<open>undefined\<close>.
  The store maps a reference to the menu it holds.  The \<open>dispatcher\<close> prop only
  receives \<open>showPopup\<close>, which is a \<open>Call\<close> here.
\<close>

type_synonym ref = nat

type_synonym store = "ref \<Rightarrow> IMenu"

record ('repo, 'remote) INoChangesProps =
  repository :: 'repo
  appMenu :: "ref option"
  repositoryState :: "'remote IRepositoryState"

text \<open>
  The globals of the module: \<open>__DARWIN__\<close>, \<open>__WIN32__\<close>, the feature flag
  \<open>enableNewNoChangesBlankslate()\<close>, the two image URLs computed by \<open>encodePathAsUrl\<close>,
  and the imported lookup \<open>getPlatformSpecificNameOrSymbolForModifier\<close>.
\<close>

record Env =
  DARWIN :: bool
  WIN32 :: bool
  enableNewNoChangesBlankslate :: bool
  BlankSlateImage :: string
  PaperStackImage :: string
  getPlatformSpecificNameOrSymbolForModifier :: "string \<Rightarrow> string"

datatype LogLevel = Error

text \<open>
  Modelled from the spec: \<open>memoizeOne\<close> comes from the package \<open>memoize-one\<close>, which is
  not among the sources.  The spec describes a single-slot cache keyed by an identity
  comparison of the argument: a call with the argument of the previous call returns the
  stored result, any other call runs the function and replaces the slot.  The slot is
  \<open>None\<close> before the first call.
\<close>

type_synonym ('a, 'b) slot = "('a \<times> 'b) option"

definition memoizeOne :: "('a \<Rightarrow> 'b) \<Rightarrow> ('a, 'b) slot \<Rightarrow> 'a \<Rightarrow> 'b \<times> ('a, 'b) slot" where
  "memoizeOne resultFn cache newArg =
     (case cache of
        None \<Rightarrow> (resultFn newArg, Some (newArg, resultFn newArg))
      | Some (lastArg, lastResult) \<Rightarrow>
          if newArg = lastArg then (lastResult, cache)
          else (resultFn newArg, Some (newArg, resultFn newArg)))"

text \<open>
  The state that rendering reads and writes: the slot of the memoized \<open>getMenuInfoMap\<close>
  of this component instance, and the application log.
\<close>

record RenderState =
  memo :: "(ref option, MenuInfoMap) slot"
  logged :: "(LogLevel \<times> string) list"

definition log_error :: "string \<Rightarrow> RenderState \<Rightarrow> RenderState" where
  "log_error msg st = st\<lparr>logged := logged st @ [(Error, msg)]\<rparr>"

text \<open>The arrow function that \<open>getMenuInfoMap\<close> memoizes.\<close>

definition computeMenuInfoMap :: "Env \<Rightarrow> store \<Rightarrow> ref option \<Rightarrow> MenuInfoMap" where
  "computeMenuInfoMap E H menu =
     (case menu of
        None \<Rightarrow> []
      | Some r \<Rightarrow> buildMenuItemInfoMap (getPlatformSpecificNameOrSymbolForModifier E) (H r) [] None)"

definition getMenuInfoMap ::
    "Env \<Rightarrow> store \<Rightarrow> ref option \<Rightarrow> RenderState \<Rightarrow> MenuInfoMap \<times> RenderState" where
  "getMenuInfoMap E H menu st =
     (let (result, cache) = memoizeOne (computeMenuInfoMap E H) (memo st) menu
      in (result, st\<lparr>memo := cache\<rparr>))"

definition getMenuItemInfo ::
    "Env \<Rightarrow> store \<Rightarrow> ('repo, 'remote) INoChangesProps \<Rightarrow> string \<Rightarrow> RenderState
      \<Rightarrow> IMenuItemInfo option \<times> RenderState" where
  "getMenuItemInfo E H props menuItemId st =
     (let (m, st1) = getMenuInfoMap E H (appMenu props) st in (map_of m menuItemId, st1))"

definition renderClassicBlankSlate :: "Env \<Rightarrow> Node" where
  "renderClassicBlankSlate E =
     (let opener = (if DARWIN E then ''Finder''
                    else if WIN32 E then ''Explorer'' else ''your File Manager'')
      in Element ''div'' [(''className'', ''panel blankslate''), (''id'', ''no-changes'')]
           [Element ''img''
              [(''src'', BlankSlateImage E), (''className'', ''blankslate-image'')] [],
            Element ''div'' [] [Text ''No local changes''],
            Element ''div'' []
              [Text ''Would you like to'', Text '' '',
               LinkButton Open [Text ''open this repository''],
               Text '' in'', Text '' '', Text opener, Text ''?'']])"

definition getPlatformFileManagerName :: "Env \<Rightarrow> string" where
  "getPlatformFileManagerName E =
     (if DARWIN E then ''Finder'' else if WIN32 E then ''Explorer'' else ''Your File Manager'')"

text \<open>The decimal digits of an array index, as \<open>k + i\<close> appends them to a string.\<close>

fun string_of_index :: "nat \<Rightarrow> string" where
  "string_of_index n =
     (if n < 10 then [''0123456789'' ! n]
      else string_of_index (n div 10) @ [''0123456789'' ! (n mod 10)])"

definition renderDiscoverabilityElements :: "IMenuItemInfo \<Rightarrow> Node" where
  "renderDiscoverabilityElements menuItem =
     (let parentMenusText = join (parentMenuLabels menuItem) '' -> '';
          keyboardShortcut =
            map (\<lambda>(k, i). Element ''kbd'' [(''key'', k @ string_of_index i)] [Text k])
              (zip (acceleratorKeys menuItem) [0 ..< length (acceleratorKeys menuItem)])
      in Fragment [Text parentMenusText, Text '' menu or '', Array keyboardShortcut])"

definition renderMenuBackedAction ::
    "Env \<Rightarrow> store \<Rightarrow> ('repo, 'remote) INoChangesProps \<Rightarrow> string \<Rightarrow> string \<Rightarrow> Node option
      \<Rightarrow> RenderState \<Rightarrow> Node \<times> RenderState" where
  "renderMenuBackedAction E H props itemId title description st =
     (let (menuItem, st1) = getMenuItemInfo E H props itemId st
      in case menuItem of
           None \<Rightarrow>
             (Null, log_error (''Could not find matching menu item for '' @ itemId) st1)
         | Some menuItem \<Rightarrow>
             if \<not> enabled menuItem then (Null, st1)
             else (MenuBackedBlankslateAction title description
                     (renderDiscoverabilityElements menuItem) itemId (label menuItem), st1))"

definition renderShowInFinderAction ::
    "Env \<Rightarrow> store \<Rightarrow> ('repo, 'remote) INoChangesProps \<Rightarrow> RenderState \<Rightarrow> Node \<times> RenderState" where
  "renderShowInFinderAction E H props st =
     (let fileManager = getPlatformFileManagerName E
      in renderMenuBackedAction E H props ''open-working-directory''
           (''View the files in your repository in '' @ fileManager) None st)"

definition renderViewOnGitHub ::
    "Env \<Rightarrow> store \<Rightarrow> ('repo, 'remote) INoChangesProps \<Rightarrow> RenderState \<Rightarrow> Node \<times> RenderState" where
  "renderViewOnGitHub E H props st =
     renderMenuBackedAction E H props ''view-repository-on-github''
       ''Open the repository page on GitHub in your browser'' None st"

definition renderOpenInExternalEditor ::
    "Env \<Rightarrow> store \<Rightarrow> ('repo, 'remote) INoChangesProps \<Rightarrow> RenderState \<Rightarrow> Node \<times> RenderState" where
  "renderOpenInExternalEditor E H props st =
     (let itemId = ''open-external-editor'';
          (menuItem, st1) = getMenuItemInfo E H props itemId st
      in case menuItem of
           None \<Rightarrow>
             (Null, log_error (''Could not find matching menu item for '' @ itemId) st1)
         | Some menuItem \<Rightarrow>
             (let (preferencesMenuItem, st2) = getMenuItemInfo E H props ''preferences'' st1
              in case preferencesMenuItem of
                   None \<Rightarrow>
                     (Null,
                      log_error (''Could not find matching menu item for '' @ itemId) st2)
                 | Some preferencesMenuItem \<Rightarrow>
                     (let title = ''Open the repository in your external editor'';
                          description =
                            Fragment
                              [Text ''Configure which editor you wish to use in'', Text '' '',
                               LinkButton OpenPreferences
                                 [Text (if DARWIN E then ''preferences'' else ''options'')]]
                      in renderMenuBackedAction E H props itemId title (Some description) st2)))"

definition renderPublishRepositoryAction ::
    "Env \<Rightarrow> store \<Rightarrow> ('repo, 'remote) INoChangesProps \<Rightarrow> RenderState \<Rightarrow> Node \<times> RenderState" where
  "renderPublishRepositoryAction E H props st =
     (let itemId = ''push'';
          (menuItem, st1) = getMenuItemInfo E H props itemId st
      in case menuItem of
           None \<Rightarrow>
             (Null, log_error (''Could not find matching menu item for '' @ itemId) st1)
         | Some menuItem \<Rightarrow>
             (BlankslateAction ''Publish your repository to GitHub''
                ''This repository is currently only available on your local machine. By publishing it on GitHub you can share it, and collaborate with others.''
                (renderDiscoverabilityElements menuItem)
                ''Publish repository'' OnPublishRepositoryClicked ''primary'', st1))"

definition renderRemoteAction ::
    "Env \<Rightarrow> store \<Rightarrow> ('repo, 'remote) INoChangesProps \<Rightarrow> RenderState \<Rightarrow> Node \<times> RenderState" where
  "renderRemoteAction E H props st =
     (case remote (repositoryState props) of
        None \<Rightarrow> renderPublishRepositoryAction E H props st
      | Some r \<Rightarrow> (Null, st))"

definition renderActions ::
    "Env \<Rightarrow> store \<Rightarrow> ('repo, 'remote) INoChangesProps \<Rightarrow> RenderState \<Rightarrow> Node \<times> RenderState" where
  "renderActions E H props st =
     (let (remoteAction, st1) = renderRemoteAction E H props st;
          remoteActions =
            (if remoteAction = Null then Null
             else Element ''div'' [(''className'', ''actions primary'')] [remoteAction]);
          (showInFinder, st2) = renderShowInFinderAction E H props st1;
          (openInExternalEditor, st3) = renderOpenInExternalEditor E H props st2;
          (viewOnGitHub, st4) = renderViewOnGitHub E H props st3
      in (Fragment
            [remoteActions,
             Element ''div'' [(''className'', ''actions'')]
               [showInFinder, openInExternalEditor, viewOnGitHub]], st4))"

definition renderNewNoChangesBlankSlate ::
    "Env \<Rightarrow> store \<Rightarrow> ('repo, 'remote) INoChangesProps \<Rightarrow> RenderState \<Rightarrow> Node \<times> RenderState" where
  "renderNewNoChangesBlankSlate E H props st =
     (let className = (if enableNewNoChangesBlankslate E then ''ng'' else '''');
          (actions, st1) = renderActions E H props st
      in (Element ''div'' [(''id'', ''no-changes''), (''className'', className)]
            [Element ''div'' [(''className'', ''content'')]
               [Element ''div'' [(''className'', ''header'')]
                  [Element ''div'' [(''className'', ''text'')]
                     [Element ''h1'' [] [Text ''No local changes''],
                      Element ''p'' []
                        [Text ''You have no uncommitted changes in your repository! Here are some friendly suggestions for what to do next.'']],
                   Element ''img''
                     [(''src'', PaperStackImage E), (''className'', ''blankslate-image'')] []],
                actions]], st1))"

definition render ::
    "Env \<Rightarrow> store \<Rightarrow> ('repo, 'remote) INoChangesProps \<Rightarrow> RenderState \<Rightarrow> Node \<times> RenderState" where
  "render E H props st =
     (if enableNewNoChangesBlankslate E then renderNewNoChangesBlankSlate E H props st
      else (renderClassicBlankSlate E, st))"

text \<open>What each click handler does when it runs.\<close>

fun click :: "('repo, 'remote) INoChangesProps \<Rightarrow> Handler \<Rightarrow> 'repo Call" where
  "click props Open = RevealInFileManager (repository props) ''''"
| "click props OpenPreferences = ExecuteMenuItemById ''preferences''"
| "click props OnPublishRepositoryClicked = ShowPopup (PublishRepository (repository props))"

section \<open>Notions used to state the properties\<close>

subsection \<open>The items of a menu tree\<close>

text \<open>
  The entries of the index as the spec describes them: a walk of the tree in the order of
  \<open>menu.items\<close>, one entry per item that is not a separator, a submenu container before
  the items of its menu.  Unlike \<open>buildMenuItemInfoMap\<close> it keeps every entry, also two
  with the same identifier.
\<close>

fun menuEntries ::
    "(string \<Rightarrow> string) \<Rightarrow> IMenu \<Rightarrow> IMenuItemInfo option \<Rightarrow> MenuInfoMap"
and itemsEntries ::
    "(string \<Rightarrow> string) \<Rightarrow> MenuItem list \<Rightarrow> IMenuItemInfo option \<Rightarrow> MenuInfoMap"
where
  "menuEntries platformName (Menu its) parent = itemsEntries platformName its parent"
| "itemsEntries platformName [] parent = []"
| "itemsEntries platformName (Separator i # rest) parent = itemsEntries platformName rest parent"
| "itemsEntries platformName (Item i l e a # rest) parent =
     (i, infoItem platformName (Item i l e a) parent) # itemsEntries platformName rest parent"
| "itemsEntries platformName (SubmenuItem i l e sub # rest) parent =
     (i, infoItem platformName (SubmenuItem i l e sub) parent)
       # menuEntries platformName sub (Some (infoItem platformName (SubmenuItem i l e sub) parent))
       @ itemsEntries platformName rest parent"

text \<open>The items of the tree that are not separators, in the same order.\<close>

fun nonSeparatorItems :: "IMenu \<Rightarrow> MenuItem list"
and nonSeparatorsOf :: "MenuItem list \<Rightarrow> MenuItem list" where
  "nonSeparatorItems (Menu its) = nonSeparatorsOf its"
| "nonSeparatorsOf [] = []"
| "nonSeparatorsOf (Separator i # rest) = nonSeparatorsOf rest"
| "nonSeparatorsOf (Item i l e a # rest) = Item i l e a # nonSeparatorsOf rest"
| "nonSeparatorsOf (SubmenuItem i l e sub # rest) =
     SubmenuItem i l e sub # nonSeparatorItems sub @ nonSeparatorsOf rest"

text \<open>\<open>map.set\<close> for each entry of a list, first to last.\<close>

definition setAll :: "MenuInfoMap \<Rightarrow> MenuInfoMap \<Rightarrow> MenuInfoMap" where
  "setAll es m = fold (\<lambda>(k, v). AList.update k v) es m"

text \<open>
  What the index is to carry of an item (identifier, label, enabled flag, accelerator
  keys), read off the item and read off an entry.
\<close>

definition itemView :: "(string \<Rightarrow> string) \<Rightarrow> MenuItem \<Rightarrow> string \<times> string \<times> bool \<times> string list" where
  "itemView pf it = (item_id it, item_label it, item_enabled it, getItemAcceleratorKeys pf it)"

definition entryView :: "string \<times> IMenuItemInfo \<Rightarrow> string \<times> string \<times> bool \<times> string list" where
  "entryView e = (fst e, label (snd e), enabled (snd e), acceleratorKeys (snd e))"

subsection \<open>The slot of the memoized lookup\<close>

text \<open>
  Menu objects are immutable (every field of \<open>IMenu\<close> is \<open>readonly\<close>), so the store
  does not change between renders.  The slot is then either empty or holds the index of the
  menu it was computed from; \<open>primed\<close> is the state after a lookup of \<open>menu\<close>.
\<close>

definition cacheValid :: "Env \<Rightarrow> store \<Rightarrow> RenderState \<Rightarrow> bool" where
  "cacheValid E H st =
     (case memo st of None \<Rightarrow> True | Some (a, r) \<Rightarrow> r = computeMenuInfoMap E H a)"

definition primed :: "Env \<Rightarrow> store \<Rightarrow> ref option \<Rightarrow> RenderState \<Rightarrow> RenderState" where
  "primed E H menu st = st\<lparr>memo := Some (menu, computeMenuInfoMap E H menu)\<rparr>"

subsection \<open>Reading a rendered tree\<close>

text \<open>
  The primary actions of a tree are the \<open>BlankslateAction\<close> elements of type
  \<open>primary\<close> among its descendants, and its links are the \<open>onClick\<close> handlers of its
  \<open>LinkButton\<close> elements, also inside a description or discoverability content.
\<close>

fun primaryActions :: "Node \<Rightarrow> Node list" where
  "primaryActions (BlankslateAction t d c b h ty) =
     (if ty = ''primary'' then [BlankslateAction t d c b h ty] else [])"
| "primaryActions (Element tag attrs children) = concat (map primaryActions children)"
| "primaryActions (Fragment children) = concat (map primaryActions children)"
| "primaryActions (Array children) = concat (map primaryActions children)"
| "primaryActions (LinkButton h children) = concat (map primaryActions children)"
| "primaryActions (MenuBackedBlankslateAction t d c i b) = []"
| "primaryActions (Text s) = []"
| "primaryActions Null = []"

fun linkButtons :: "Node \<Rightarrow> Handler list" where
  "linkButtons (LinkButton h children) = h # concat (map linkButtons children)"
| "linkButtons (Element tag attrs children) = concat (map linkButtons children)"
| "linkButtons (Fragment children) = concat (map linkButtons children)"
| "linkButtons (Array children) = concat (map linkButtons children)"
| "linkButtons (MenuBackedBlankslateAction t d c i b) =
     (case d of None \<Rightarrow> [] | Some n \<Rightarrow> linkButtons n) @ linkButtons c"
| "linkButtons (BlankslateAction t d c b h ty) = linkButtons c"
| "linkButtons (Text s) = []"
| "linkButtons Null = []"

subsection \<open>The menu-backed affordances\<close>

text \<open>
  The four actions of the panel that look a menu item up: the identifier each passes on
  as \<open>itemId\<close>, every identifier its render helper looks up, whether it is one of the
  three secondary actions, and its render helper.
\<close>

datatype Affordance = ShowInFinder | OpenInExternalEditor | ViewOnGitHub | PublishRepositoryAction

fun menuIdOf :: "Affordance \<Rightarrow> string" where
  "menuIdOf ShowInFinder = ''open-working-directory''"
| "menuIdOf OpenInExternalEditor = ''open-external-editor''"
| "menuIdOf ViewOnGitHub = ''view-repository-on-github''"
| "menuIdOf PublishRepositoryAction = ''push''"

fun referencedIds :: "Affordance \<Rightarrow> string list" where
  "referencedIds OpenInExternalEditor = [''open-external-editor'', ''preferences'']"
| "referencedIds a = [menuIdOf a]"

fun secondary :: "Affordance \<Rightarrow> bool" where
  "secondary PublishRepositoryAction = False"
| "secondary a = True"

fun renderAffordance ::
    "Env \<Rightarrow> store \<Rightarrow> ('repo, 'remote) INoChangesProps \<Rightarrow> Affordance \<Rightarrow> RenderState
      \<Rightarrow> Node \<times> RenderState" where
  "renderAffordance E H props ShowInFinder st = renderShowInFinderAction E H props st"
| "renderAffordance E H props OpenInExternalEditor st = renderOpenInExternalEditor E H props st"
| "renderAffordance E H props ViewOnGitHub st = renderViewOnGitHub E H props st"
| "renderAffordance E H props PublishRepositoryAction st =
     renderPublishRepositoryAction E H props st"

subsection \<open>Example inputs\<close>

text \<open>
  A menu with a disabled \<open>push\<close> and a disabled \<open>view-repository-on-github\<close>, a menu
  that lacks \<open>preferences\<close>, a menu with one identifier used twice, a store holding the
  first two, environments with the feature flag on and off, props, the state of a
  freshly constructed component and the state after a render without a menu.
\<close>

definition sampleMenu :: IMenu where
  "sampleMenu =
     Menu
       [SubmenuItem ''file'' ''File'' True
          (Menu [Item ''preferences'' ''Options'' True (Some ''CmdOrCtrl+,''),
                 Separator ''sep'']),
        SubmenuItem ''repository'' ''Repository'' True
          (Menu [Item ''push'' ''Push'' False (Some ''CmdOrCtrl+P''),
                 Item ''open-working-directory'' ''Show in Explorer'' True
                   (Some ''CmdOrCtrl+Shift+F''),
                 Item ''open-external-editor'' ''Open in external editor'' True
                   (Some ''CmdOrCtrl+Shift+A''),
                 Item ''view-repository-on-github'' ''View on GitHub'' False None])]"

definition smallMenu :: IMenu where
  "smallMenu = Menu [Item ''open-external-editor'' ''Open in external editor'' True None]"

definition duplicateMenu :: IMenu where
  "duplicateMenu = Menu [Item ''a'' ''First'' True None, Item ''a'' ''Second'' False None]"

definition sampleStore :: store where
  "sampleStore r = (if r = 0 then sampleMenu else smallMenu)"

definition sampleEnv :: Env where
  "sampleEnv =
     \<lparr> DARWIN = False, WIN32 = True, enableNewNoChangesBlankslate = True,
       BlankSlateImage = ''static/empty-no-file-selected.svg'',
       PaperStackImage = ''static/paper-stack.svg'',
       getPlatformSpecificNameOrSymbolForModifier = id \<rparr>"

definition legacyEnv :: Env where
  "legacyEnv = sampleEnv\<lparr>enableNewNoChangesBlankslate := False\<rparr>"

definition propsFor :: "ref option \<Rightarrow> string option \<Rightarrow> (string, string) INoChangesProps" where
  "propsFor menu r =
     \<lparr> repository = ''desktop'', appMenu = menu, repositoryState = \<lparr> remote = r \<rparr> \<rparr>"

definition initialState :: RenderState where
  "initialState = \<lparr> memo = None, logged = [] \<rparr>"

definition warmState :: RenderState where
  "warmState = \<lparr> memo = Some (None, []), logged = [] \<rparr>"

text \<open>
  A menu in which every looked-up item is present and enabled except
  \<open>view-repository-on-github\<close>, which it lacks, and a store holding that menu.
\<close>

definition partialMenu :: IMenu where
  "partialMenu =
     Menu
       [SubmenuItem ''file'' ''File'' True
          (Menu [Item ''preferences'' ''Options'' True (Some ''CmdOrCtrl+,'')]),
        SubmenuItem ''repository'' ''Repository'' True
          (Menu [Item ''push'' ''Push'' True (Some ''CmdOrCtrl+P''),
                 Separator ''sep'',
                 Item ''open-working-directory'' ''Show in Explorer'' True
                   (Some ''CmdOrCtrl+Shift+F''),
                 Item ''open-external-editor'' ''Open in external editor'' True None])]"

definition partialStore :: store where
  "partialStore r = partialMenu"

section \<open>Splitting and joining\<close>

lemma split_from_nonempty: "split_from sep cur s \<noteq> []"
  by (induction s arbitrary: cur) auto

lemma join_Cons: "ys \<noteq> [] \<Longrightarrow> join (x # ys) sep = x @ sep @ join ys sep"
  by (cases ys) auto

lemma join_split_from: "join (split_from sep cur s) [sep] = rev cur @ s"
  by (induction s arbitrary: cur) (auto simp: join_Cons split_from_nonempty)

lemma split_from_free:
  "sep \<notin> set cur \<Longrightarrow> sep \<notin> set (concat (split_from sep cur s))"
proof (induction s arbitrary: cur)
  case Nil
  then show ?case by simp
next
  case (Cons c cs)
  show ?case
  proof (cases "c = sep")
    case True
    have "sep \<notin> set (concat (split_from sep [] cs))" by (rule Cons.IH) simp
    with Cons.prems True show ?thesis by simp
  next
    case False
    with Cons.prems have "sep \<notin> set (c # cur)" by simp
    from Cons.IH [OF this] False show ?thesis by simp
  qed
qed

lemma length_split_from: "length (split_from sep cur s) = Suc (count_list s sep)"
  by (induction s arbitrary: cur) auto

section \<open>The index builder against the walk of the tree\<close>

lemma setAll_simps [simp]:
  "setAll [] m = m"
  "setAll ((k, v) # es) m = setAll es (AList.update k v m)"
  "setAll (es @ es') m = setAll es' (setAll es m)"
  by (simp_all add: setAll_def)

lemma build_setAll:
  "buildMenuItemInfoMap pf menu m parent = setAll (menuEntries pf menu parent) m"
  "buildItems pf its m parent = setAll (itemsEntries pf its parent) m"
  by (induction pf menu m parent and pf its m parent rule: buildMenuItemInfoMap_buildItems.induct)
     (simp_all add: Let_def)

lemma setAll_keys: "fst ` set (setAll es m) = fst ` set m \<union> fst ` set es"
proof (induction es arbitrary: m)
  case Nil
  then show ?case by simp
next
  case (Cons e es)
  obtain k v where e: "e = (k, v)" by (cases e)
  have "fst ` set (setAll (e # es) m) = fst ` set (AList.update k v m) \<union> fst ` set es"
    by (simp add: e Cons.IH)
  also have "\<dots> = fst ` set m \<union> fst ` set (e # es)"
    by (simp add: AList.dom_update e)
  finally show ?case .
qed

lemma setAll_distinct: "distinct (map fst m) \<Longrightarrow> distinct (map fst (setAll es m))"
  by (induction es arbitrary: m) (auto simp: AList.distinct_update)

lemma setAll_map_of: "map_of (setAll es m) = map_of m ++ map_of (rev es)"
  by (induction es arbitrary: m) (auto simp: AList.update_conv' fun_eq_iff map_add_def split: option.splits)

lemma update_fresh: "k \<notin> fst ` set m \<Longrightarrow> AList.update k v m = m @ [(k, v)]"
  by (induction m) auto

lemma setAll_fresh: "distinct (map fst (m @ es)) \<Longrightarrow> setAll es m = m @ es"
proof (induction es arbitrary: m)
  case Nil
  then show ?case by simp
next
  case (Cons e es)
  obtain k v where e: "e = (k, v)" by (cases e)
  from Cons.prems have fresh: "k \<notin> fst ` set m" by (auto simp: e)
  from Cons.prems have "distinct (map fst ((m @ [(k, v)]) @ es))" by (auto simp: e)
  from Cons.IH [OF this] show ?case by (simp add: e update_fresh [OF fresh])
qed

lemma entries_view:
  "map entryView (menuEntries pf menu parent) = map (itemView pf) (nonSeparatorItems menu)"
  "map entryView (itemsEntries pf its parent) = map (itemView pf) (nonSeparatorsOf its)"
  by (induction pf menu parent and pf its parent rule: menuEntries_itemsEntries.induct)
     (simp_all add: entryView_def itemView_def infoItem_def)

lemma entries_of_index:
  assumes "(k, v) \<in> set (setAll es [])"
  shows "(k, v) \<in> set es"
proof -
  have d: "distinct (map fst (setAll es []))" by (rule setAll_distinct) simp
  from assms d have "map_of (setAll es []) k = Some v" by simp
  then have "map_of (rev es) k = Some v" by (simp add: setAll_map_of)
  then have "(k, v) \<in> set (rev es)" by (rule map_of_SomeD)
  then show ?thesis by simp
qed

section \<open>The render helpers when the slot is valid\<close>

lemma primed_simps [simp]:
  "logged (primed E H menu st) = logged st"
  "memo (primed E H menu st) = Some (menu, computeMenuInfoMap E H menu)"
  "primed E H menu (primed E H menu' st) = primed E H menu st"
  "primed E H menu (log_error msg st) = log_error msg (primed E H menu st)"
  "cacheValid E H (primed E H menu st)"
  by (simp_all add: primed_def log_error_def cacheValid_def)

lemma log_error_simps [simp]:
  "logged (log_error msg st) = logged st @ [(Error, msg)]"
  "memo (log_error msg st) = memo st"
  "cacheValid E H (log_error msg st) = cacheValid E H st"
  by (simp_all add: log_error_def cacheValid_def)

lemma getMenuInfoMap_valid:
  assumes "cacheValid E H st"
  shows "getMenuInfoMap E H menu st = (computeMenuInfoMap E H menu, primed E H menu st)"
proof (cases "memo st")
  case None
  then show ?thesis by (simp add: getMenuInfoMap_def memoizeOne_def primed_def)
next
  case (Some c)
  obtain a r where c: "c = (a, r)" by (cases c)
  from assms Some c have r: "r = computeMenuInfoMap E H a" by (simp add: cacheValid_def)
  show ?thesis
  proof (cases "menu = a")
    case True
    have "st\<lparr>memo := Some (a, r)\<rparr> = st" using Some c by simp
    then show ?thesis using Some c r True
      by (simp add: getMenuInfoMap_def memoizeOne_def primed_def)
  next
    case False
    then show ?thesis using Some c by (simp add: getMenuInfoMap_def memoizeOne_def primed_def)
  qed
qed

lemma getMenuItemInfo_valid:
  "cacheValid E H st \<Longrightarrow>
     getMenuItemInfo E H props i st =
       (map_of (computeMenuInfoMap E H (appMenu props)) i, primed E H (appMenu props) st)"
  by (simp add: getMenuItemInfo_def getMenuInfoMap_valid)

lemma renderMenuBackedAction_valid:
  assumes "cacheValid E H st"
  shows "renderMenuBackedAction E H props i t d st =
     (case map_of (computeMenuInfoMap E H (appMenu props)) i of
        None \<Rightarrow> (Null, log_error (''Could not find matching menu item for '' @ i) (primed E H (appMenu props) st))
      | Some mi \<Rightarrow>
          (if enabled mi
           then MenuBackedBlankslateAction t d (renderDiscoverabilityElements mi) i (label mi)
           else Null, primed E H (appMenu props) st))"
  using assms
  by (simp add: renderMenuBackedAction_def getMenuItemInfo_valid split: option.splits)

lemma renderOpenInExternalEditor_valid:
  assumes "cacheValid E H st"
  shows "renderOpenInExternalEditor E H props st =
     (case map_of (computeMenuInfoMap E H (appMenu props)) ''open-external-editor'' of
        None \<Rightarrow> (Null, log_error (''Could not find matching menu item for '' @ ''open-external-editor'') (primed E H (appMenu props) st))
      | Some mi \<Rightarrow>
         (case map_of (computeMenuInfoMap E H (appMenu props)) ''preferences'' of
            None \<Rightarrow> (Null, log_error (''Could not find matching menu item for '' @ ''open-external-editor'') (primed E H (appMenu props) st))
          | Some pm \<Rightarrow>
          (if enabled mi
           then MenuBackedBlankslateAction ''Open the repository in your external editor''
                  (Some (Fragment
                              [Text ''Configure which editor you wish to use in'', Text '' '',
                               LinkButton OpenPreferences
                                 [Text (if DARWIN E then ''preferences'' else ''options'')]]))
                  (renderDiscoverabilityElements mi) ''open-external-editor'' (label mi)
           else Null, primed E H (appMenu props) st)))"
  using assms
  by (simp add: renderOpenInExternalEditor_def getMenuItemInfo_valid renderMenuBackedAction_valid Let_def del: append.simps split: option.splits)

lemma renderPublishRepositoryAction_valid:
  assumes "cacheValid E H st"
  shows "renderPublishRepositoryAction E H props st =
     (case map_of (computeMenuInfoMap E H (appMenu props)) ''push'' of
        None \<Rightarrow> (Null, log_error (''Could not find matching menu item for '' @ ''push'') (primed E H (appMenu props) st))
      | Some mi \<Rightarrow>
             (BlankslateAction ''Publish your repository to GitHub''
                ''This repository is currently only available on your local machine. By publishing it on GitHub you can share it, and collaborate with others.''
                (renderDiscoverabilityElements mi)
                ''Publish repository'' OnPublishRepositoryClicked ''primary'', primed E H (appMenu props) st))"
  using assms
  by (simp add: renderPublishRepositoryAction_def getMenuItemInfo_valid Let_def del: append.simps split: option.splits)

lemma valid_after:
  assumes "cacheValid E H st"
  shows "cacheValid E H (snd (renderMenuBackedAction E H props i t d st))"
    and "cacheValid E H (snd (renderOpenInExternalEditor E H props st))"
    and "cacheValid E H (snd (renderPublishRepositoryAction E H props st))"
  using assms
  by (simp_all add: renderMenuBackedAction_valid renderOpenInExternalEditor_valid
      renderPublishRepositoryAction_valid del: append.simps split: option.splits)

lemma fst_indep:
  assumes "cacheValid E H st" "cacheValid E H st'"
  shows "fst (renderMenuBackedAction E H props i t d st) = fst (renderMenuBackedAction E H props i t d st')"
    and "fst (renderOpenInExternalEditor E H props st) = fst (renderOpenInExternalEditor E H props st')"
    and "fst (renderPublishRepositoryAction E H props st) = fst (renderPublishRepositoryAction E H props st')"
  using assms
  by (simp_all add: renderMenuBackedAction_valid renderOpenInExternalEditor_valid
      renderPublishRepositoryAction_valid del: append.simps split: option.splits)

lemma renderRemoteAction_valid:
  assumes "cacheValid E H st"
  shows "renderRemoteAction E H props st =
     (case remote (repositoryState props) of
        Some r \<Rightarrow> (Null, st)
      | None \<Rightarrow> renderPublishRepositoryAction E H props st)"
  by (simp add: renderRemoteAction_def split: option.splits)

lemma renderAffordance_valid_after:
  assumes "cacheValid E H st"
  shows "cacheValid E H (snd (renderAffordance E H props a st))"
proof (cases a)
  case ShowInFinder
  show ?thesis unfolding ShowInFinder renderAffordance.simps renderShowInFinderAction_def Let_def
    by (rule valid_after(1) [OF assms])
next
  case OpenInExternalEditor
  show ?thesis unfolding OpenInExternalEditor renderAffordance.simps
    by (rule valid_after(2) [OF assms])
next
  case ViewOnGitHub
  show ?thesis unfolding ViewOnGitHub renderAffordance.simps renderViewOnGitHub_def
    by (rule valid_after(1) [OF assms])
next
  case PublishRepositoryAction
  show ?thesis unfolding PublishRepositoryAction renderAffordance.simps
    by (rule valid_after(3) [OF assms])
qed

lemma renderAffordance_indep:
  assumes "cacheValid E H st" "cacheValid E H st'"
  shows "fst (renderAffordance E H props a st) = fst (renderAffordance E H props a st')"
proof (cases a)
  case ShowInFinder
  show ?thesis unfolding ShowInFinder renderAffordance.simps renderShowInFinderAction_def Let_def
    by (rule fst_indep(1) [OF assms])
next
  case OpenInExternalEditor
  show ?thesis unfolding OpenInExternalEditor renderAffordance.simps
    by (rule fst_indep(2) [OF assms])
next
  case ViewOnGitHub
  show ?thesis unfolding ViewOnGitHub renderAffordance.simps renderViewOnGitHub_def
    by (rule fst_indep(1) [OF assms])
next
  case PublishRepositoryAction
  show ?thesis unfolding PublishRepositoryAction renderAffordance.simps
    by (rule fst_indep(3) [OF assms])
qed

lemma valid_after_remote:
  assumes "cacheValid E H st"
  shows "cacheValid E H (snd (renderRemoteAction E H props st))"
  using assms renderAffordance_valid_after [OF assms, of props PublishRepositoryAction]
  by (simp add: renderRemoteAction_def split: option.splits)

lemma renderActions_shape:
  assumes v: "cacheValid E H st"
  shows "fst (renderActions E H props st) =
     Fragment
       [if fst (renderRemoteAction E H props st) = Null then Null
        else Element ''div'' [(''className'', ''actions primary'')]
               [fst (renderRemoteAction E H props st)],
        Element ''div'' [(''className'', ''actions'')]
          [fst (renderShowInFinderAction E H props st),
           fst (renderOpenInExternalEditor E H props st),
           fst (renderViewOnGitHub E H props st)]]"
proof -
  obtain n0 s1 where r0: "renderRemoteAction E H props st = (n0, s1)" by force
  obtain n1 s2 where r1: "renderShowInFinderAction E H props s1 = (n1, s2)" by force
  obtain n2 s3 where r2: "renderOpenInExternalEditor E H props s2 = (n2, s3)" by force
  obtain n3 s4 where r3: "renderViewOnGitHub E H props s3 = (n3, s4)" by force
  have v1: "cacheValid E H s1" using valid_after_remote [OF v, of props] r0 by simp
  have v2: "cacheValid E H s2"
    using renderAffordance_valid_after [OF v1, of props ShowInFinder] r1 by simp
  have v3: "cacheValid E H s3"
    using renderAffordance_valid_after [OF v2, of props OpenInExternalEditor] r2 by simp
  have e1: "n1 = fst (renderShowInFinderAction E H props st)"
    using renderAffordance_indep [OF v1 v, of props ShowInFinder] r1 by simp
  have e2: "n2 = fst (renderOpenInExternalEditor E H props st)"
    using renderAffordance_indep [OF v2 v, of props OpenInExternalEditor] r2 by simp
  have e3: "n3 = fst (renderViewOnGitHub E H props st)"
    using renderAffordance_indep [OF v3 v, of props ViewOnGitHub] r3 by simp
  have "fst (renderActions E H props st) =
      Fragment [if n0 = Null then Null
                else Element ''div'' [(''className'', ''actions primary'')] [n0],
                Element ''div'' [(''className'', ''actions'')] [n1, n2, n3]]"
    by (simp add: renderActions_def r0 r1 r2 r3)
  then show ?thesis using r0 e1 e2 e3 by simp
qed

lemma renderAffordance_absent:
  assumes v: "cacheValid E H st"
    and i: "i \<in> set (referencedIds a)"
    and n: "map_of (computeMenuInfoMap E H (appMenu props)) i = None"
  shows "fst (renderAffordance E H props a st) = Null
     \<and> logged (snd (renderAffordance E H props a st)) =
         logged st @ [(Error, ''Could not find matching menu item for '' @ menuIdOf a)]"
proof (cases a)
  case ShowInFinder
  with i n show ?thesis
    by (simp add: renderShowInFinderAction_def renderMenuBackedAction_valid [OF v]
        del: append.simps)
next
  case OpenInExternalEditor
  with i n show ?thesis
    by (auto simp add: renderOpenInExternalEditor_valid [OF v]
        simp del: append.simps split: option.splits)
next
  case ViewOnGitHub
  with i n show ?thesis
    by (simp add: renderViewOnGitHub_def renderMenuBackedAction_valid [OF v]
        del: append.simps)
next
  case PublishRepositoryAction
  with i n show ?thesis
    by (simp add: renderPublishRepositoryAction_valid [OF v] del: append.simps)
qed

lemma renderAffordance_disabled:
  assumes v: "cacheValid E H st"
    and s: "secondary a"
    and m: "map_of (computeMenuInfoMap E H (appMenu props)) (menuIdOf a) = Some menuItem"
    and d: "\<not> enabled menuItem"
  shows "fst (renderAffordance E H props a st) = Null"
proof (cases a)
  case ShowInFinder
  with m d show ?thesis
    by (simp add: renderShowInFinderAction_def renderMenuBackedAction_valid [OF v]
        del: append.simps)
next
  case OpenInExternalEditor
  with m d show ?thesis
    by (simp add: renderOpenInExternalEditor_valid [OF v]
        del: append.simps split: option.splits)
next
  case ViewOnGitHub
  with m d show ?thesis
    by (simp add: renderViewOnGitHub_def renderMenuBackedAction_valid [OF v]
        del: append.simps)
next
  case PublishRepositoryAction
  with s show ?thesis by simp
qed

lemma primaryActions_affordance:
  assumes v: "cacheValid E H st" and s: "secondary a"
  shows "primaryActions (fst (renderAffordance E H props a st)) = []"
proof (cases a)
  case ShowInFinder
  then show ?thesis
    by (simp add: renderShowInFinderAction_def renderMenuBackedAction_valid [OF v]
        del: append.simps split: option.splits)
next
  case OpenInExternalEditor
  then show ?thesis
    by (simp add: renderOpenInExternalEditor_valid [OF v] del: append.simps split: option.splits)
next
  case ViewOnGitHub
  then show ?thesis
    by (simp add: renderViewOnGitHub_def renderMenuBackedAction_valid [OF v]
        del: append.simps split: option.splits)
next
  case PublishRepositoryAction
  with s show ?thesis by simp
qed

lemma primaryActions_renderNew:
  assumes v: "cacheValid E H st"
  shows "primaryActions (fst (renderNewNoChangesBlankSlate E H props st)) =
           primaryActions (fst (renderRemoteAction E H props st))"
proof -
  obtain n s1 where r: "renderActions E H props st = (n, s1)" by force
  have "primaryActions (fst (renderNewNoChangesBlankSlate E H props st)) = primaryActions n"
    by (simp add: renderNewNoChangesBlankSlate_def r)
  also have "n = fst (renderActions E H props st)" by (simp add: r)
  also have "primaryActions (fst (renderActions E H props st)) =
      primaryActions (fst (renderRemoteAction E H props st))"
    using primaryActions_affordance [OF v, of ShowInFinder props]
      primaryActions_affordance [OF v, of OpenInExternalEditor props]
      primaryActions_affordance [OF v, of ViewOnGitHub props]
    by (simp add: renderActions_shape [OF v])
  finally show ?thesis .
qed

text \<open>Rendering keeps the slot valid, so every state a component reaches has a valid slot.\<close>

lemma render_preserves_cacheValid:
  assumes v: "cacheValid E H st"
  shows "cacheValid E H (snd (render E H props st))"
proof -
  obtain n0 s1 where r0: "renderRemoteAction E H props st = (n0, s1)" by force
  obtain n1 s2 where r1: "renderShowInFinderAction E H props s1 = (n1, s2)" by force
  obtain n2 s3 where r2: "renderOpenInExternalEditor E H props s2 = (n2, s3)" by force
  obtain n3 s4 where r3: "renderViewOnGitHub E H props s3 = (n3, s4)" by force
  have v1: "cacheValid E H s1" using valid_after_remote [OF v, of props] r0 by simp
  have v2: "cacheValid E H s2"
    using renderAffordance_valid_after [OF v1, of props ShowInFinder] r1 by simp
  have v3: "cacheValid E H s3"
    using renderAffordance_valid_after [OF v2, of props OpenInExternalEditor] r2 by simp
  have v4: "cacheValid E H s4"
    using renderAffordance_valid_after [OF v3, of props ViewOnGitHub] r3 by simp
  have "snd (renderActions E H props st) = s4"
    by (simp add: renderActions_def r0 r1 r2 r3)
  then have "snd (renderNewNoChangesBlankSlate E H props st) = s4"
    by (simp add: renderNewNoChangesBlankSlate_def split_beta)
  with v v4 show ?thesis by (simp add: render_def)
qed

lemma renderAffordance_present:
  assumes v: "cacheValid E H st"
    and s: "secondary b"
    and m: "map_of (computeMenuInfoMap E H (appMenu props)) (menuIdOf b) = Some menuItem"
    and e: "enabled menuItem"
    and p: "list_all (\<lambda>i. map_of (computeMenuInfoMap E H (appMenu props)) i \<noteq> None)
              (referencedIds b)"
  shows "\<exists>title description.
           fst (renderAffordance E H props b st) =
             MenuBackedBlankslateAction title description
               (renderDiscoverabilityElements menuItem) (menuIdOf b) (label menuItem)"
proof (cases b)
  case ShowInFinder
  with m e show ?thesis
    by (simp add: renderShowInFinderAction_def renderMenuBackedAction_valid [OF v]
        del: append.simps)
next
  case OpenInExternalEditor
  with m e p show ?thesis
    by (auto simp add: renderOpenInExternalEditor_valid [OF v] simp del: append.simps)
next
  case ViewOnGitHub
  with m e show ?thesis
    by (simp add: renderViewOnGitHub_def renderMenuBackedAction_valid [OF v]
        del: append.simps)
next
  case PublishRepositoryAction
  with s show ?thesis by simp
qed

lemma renderRemoteAction_present:
  assumes v: "cacheValid E H st"
    and r: "remote (repositoryState props) = None"
    and m: "map_of (computeMenuInfoMap E H (appMenu props)) ''push'' = Some pushItem"
  shows "\<exists>description.
           fst (renderRemoteAction E H props st) =
             BlankslateAction ''Publish your repository to GitHub'' description
               (renderDiscoverabilityElements pushItem) ''Publish repository''
               OnPublishRepositoryClicked ''primary''"
  using r m by (simp add: renderRemoteAction_def renderPublishRepositoryAction_valid [OF v])

lemma renderNew_structure:
  "fst (renderNewNoChangesBlankSlate E H props st) =
     Element ''div''
       [(''id'', ''no-changes''),
        (''className'', if enableNewNoChangesBlankslate E then ''ng'' else '''')]
       [Element ''div'' [(''className'', ''content'')]
          [Element ''div'' [(''className'', ''header'')]
             [Element ''div'' [(''className'', ''text'')]
                [Element ''h1'' [] [Text ''No local changes''],
                 Element ''p'' []
                   [Text ''You have no uncommitted changes in your repository! Here are some friendly suggestions for what to do next.'']],
              Element ''img''
                [(''src'', PaperStackImage E), (''className'', ''blankslate-image'')] []],
           fst (renderActions E H props st)]]
   \<and> snd (renderNewNoChangesBlankSlate E H props st) = snd (renderActions E H props st)"
  by (simp add: renderNewNoChangesBlankSlate_def split_beta)

section \<open>The example inputs evaluated\<close>

lemma initial_valid: "cacheValid E H initialState"
  by (simp add: cacheValid_def initialState_def)

lemma sampleIndex:
  "computeMenuInfoMap sampleEnv sampleStore (Some 0) =
     [(''file'', \<lparr>label = ''File'', acceleratorKeys = [], parentMenuLabels = [], enabled = True\<rparr>),
      (''preferences'', \<lparr>label = ''Options'', acceleratorKeys = [''CmdOrCtrl'', '',''],
          parentMenuLabels = [''File''], enabled = True\<rparr>),
      (''repository'', \<lparr>label = ''Repository'', acceleratorKeys = [], parentMenuLabels = [],
          enabled = True\<rparr>),
      (''push'', \<lparr>label = ''Push'', acceleratorKeys = [''CmdOrCtrl'', ''P''],
          parentMenuLabels = [''Repository''], enabled = False\<rparr>),
      (''open-working-directory'', \<lparr>label = ''Show in Explorer'',
          acceleratorKeys = [''CmdOrCtrl'', ''Shift'', ''F''],
          parentMenuLabels = [''Repository''], enabled = True\<rparr>),
      (''open-external-editor'', \<lparr>label = ''Open in external editor'',
          acceleratorKeys = [''CmdOrCtrl'', ''Shift'', ''A''],
          parentMenuLabels = [''Repository''], enabled = True\<rparr>),
      (''view-repository-on-github'', \<lparr>label = ''View on GitHub'', acceleratorKeys = [],
          parentMenuLabels = [''Repository''], enabled = False\<rparr>)]"
  by (simp add: computeMenuInfoMap_def sampleEnv_def sampleStore_def sampleMenu_def
      infoItem_def split_def Let_def)

lemma smallIndex:
  "computeMenuInfoMap sampleEnv sampleStore (Some (Suc 0)) =
     [(''open-external-editor'', \<lparr>label = ''Open in external editor'', acceleratorKeys = [],
          parentMenuLabels = [], enabled = True\<rparr>)]"
  by (simp add: computeMenuInfoMap_def sampleEnv_def sampleStore_def smallMenu_def
      infoItem_def Let_def)

lemma props_simps [simp]:
  "appMenu (propsFor menu r) = menu"
  "remote (repositoryState (propsFor menu r)) = r"
  "repository (propsFor menu r) = ''desktop''"
  by (simp_all add: propsFor_def)

lemma partialIndex:
  "computeMenuInfoMap sampleEnv partialStore (Some 0) =
     [(''file'', \<lparr>label = ''File'', acceleratorKeys = [], parentMenuLabels = [], enabled = True\<rparr>),
      (''preferences'', \<lparr>label = ''Options'', acceleratorKeys = [''CmdOrCtrl'', '',''],
          parentMenuLabels = [''File''], enabled = True\<rparr>),
      (''repository'', \<lparr>label = ''Repository'', acceleratorKeys = [], parentMenuLabels = [],
          enabled = True\<rparr>),
      (''push'', \<lparr>label = ''Push'', acceleratorKeys = [''CmdOrCtrl'', ''P''],
          parentMenuLabels = [''Repository''], enabled = True\<rparr>),
      (''open-working-directory'', \<lparr>label = ''Show in Explorer'',
          acceleratorKeys = [''CmdOrCtrl'', ''Shift'', ''F''],
          parentMenuLabels = [''Repository''], enabled = True\<rparr>),
      (''open-external-editor'', \<lparr>label = ''Open in external editor'', acceleratorKeys = [],
          parentMenuLabels = [''Repository''], enabled = True\<rparr>)]"
  by (simp add: computeMenuInfoMap_def sampleEnv_def partialStore_def partialMenu_def
      infoItem_def split_def Let_def)

lemma partial_remote:
  "fst (renderRemoteAction sampleEnv partialStore (propsFor (Some 0) None) initialState) =
     BlankslateAction ''Publish your repository to GitHub''
       ''This repository is currently only available on your local machine. By publishing it on GitHub you can share it, and collaborate with others.''
       (Fragment
          [Text ''Repository'', Text '' menu or '',
           Array
             [Element ''kbd'' [(''key'', ''CmdOrCtrl0'')] [Text ''CmdOrCtrl''],
              Element ''kbd'' [(''key'', ''P1'')] [Text ''P'']]])
       ''Publish repository'' OnPublishRepositoryClicked ''primary''"
  by code_simp

lemma partial_show:
  "fst (renderAffordance sampleEnv partialStore (propsFor (Some 0) None) ShowInFinder
      initialState) =
     MenuBackedBlankslateAction ''View the files in your repository in Explorer'' None
       (Fragment
          [Text ''Repository'', Text '' menu or '',
           Array
             [Element ''kbd'' [(''key'', ''CmdOrCtrl0'')] [Text ''CmdOrCtrl''],
              Element ''kbd'' [(''key'', ''Shift1'')] [Text ''Shift''],
              Element ''kbd'' [(''key'', ''F2'')] [Text ''F'']]])
       ''open-working-directory'' ''Show in Explorer''"
  by code_simp

lemma partial_editor:
  "fst (renderAffordance sampleEnv partialStore (propsFor (Some 0) None) OpenInExternalEditor
      initialState) =
     MenuBackedBlankslateAction ''Open the repository in your external editor''
       (Some
          (Fragment
             [Text ''Configure which editor you wish to use in'', Text '' '',
              LinkButton OpenPreferences [Text ''options'']]))
       (Fragment [Text ''Repository'', Text '' menu or '', Array []])
       ''open-external-editor'' ''Open in external editor''"
  by code_simp

lemma sample_remote:
  "fst (renderRemoteAction sampleEnv sampleStore (propsFor (Some 0) None) initialState) =
     BlankslateAction ''Publish your repository to GitHub''
       ''This repository is currently only available on your local machine. By publishing it on GitHub you can share it, and collaborate with others.''
       (Fragment
          [Text ''Repository'', Text '' menu or '',
           Array
             [Element ''kbd'' [(''key'', ''CmdOrCtrl0'')] [Text ''CmdOrCtrl''],
              Element ''kbd'' [(''key'', ''P1'')] [Text ''P'']]])
       ''Publish repository'' OnPublishRepositoryClicked ''primary''"
  by code_simp

lemma sample_show:
  "fst (renderShowInFinderAction sampleEnv sampleStore (propsFor (Some 0) None) initialState) =
     MenuBackedBlankslateAction ''View the files in your repository in Explorer'' None
       (Fragment
          [Text ''Repository'', Text '' menu or '',
           Array
             [Element ''kbd'' [(''key'', ''CmdOrCtrl0'')] [Text ''CmdOrCtrl''],
              Element ''kbd'' [(''key'', ''Shift1'')] [Text ''Shift''],
              Element ''kbd'' [(''key'', ''F2'')] [Text ''F'']]])
       ''open-working-directory'' ''Show in Explorer''"
  by code_simp

lemma sample_editor:
  "fst (renderOpenInExternalEditor sampleEnv sampleStore (propsFor (Some 0) None)
      initialState) =
     MenuBackedBlankslateAction ''Open the repository in your external editor''
       (Some
          (Fragment
             [Text ''Configure which editor you wish to use in'', Text '' '',
              LinkButton OpenPreferences [Text ''options'']]))
       (Fragment
          [Text ''Repository'', Text '' menu or '',
           Array
             [Element ''kbd'' [(''key'', ''CmdOrCtrl0'')] [Text ''CmdOrCtrl''],
              Element ''kbd'' [(''key'', ''Shift1'')] [Text ''Shift''],
              Element ''kbd'' [(''key'', ''A2'')] [Text ''A'']]])
       ''open-external-editor'' ''Open in external editor''"
  by code_simp

lemma sample_github:
  "fst (renderViewOnGitHub sampleEnv sampleStore (propsFor (Some 0) None) initialState) = Null"
  by code_simp

lemma env_fields:
  "\<not> enableNewNoChangesBlankslate legacyEnv"
  "enableNewNoChangesBlankslate sampleEnv"
  "\<not> DARWIN legacyEnv"
  "WIN32 legacyEnv"
  "BlankSlateImage legacyEnv = ''static/empty-no-file-selected.svg''"
  "PaperStackImage sampleEnv = ''static/paper-stack.svg''"
  by (simp_all add: legacyEnv_def sampleEnv_def)

section \<open>The claims\<close>

text \<open>
  Claim C1, with the lookup of \<open>push\<close> made explicit.  When the remote is \<open>null\<close>
  and \<open>push\<close> is in the index, the publish-repository action is the only primary action
  of the Enhanced panel, and clicking it shows the publish popup for the repository of the
  props.  When the remote is \<open>null\<close> and \<open>push\<close> is not in the index, and when the
  remote is not \<open>null\<close>, the panel has no primary action.
\<close>

theorem publish_is_the_only_primary_action:
  assumes v: "cacheValid E H st"
  shows "(case remote (repositoryState props) of
            Some r \<Rightarrow> primaryActions (fst (renderNewNoChangesBlankSlate E H props st)) = []
          | None \<Rightarrow>
              (case map_of (computeMenuInfoMap E H (appMenu props)) ''push'' of
                 None \<Rightarrow> primaryActions (fst (renderNewNoChangesBlankSlate E H props st)) = []
               | Some menuItem \<Rightarrow>
                   (\<exists>description.
                      primaryActions (fst (renderNewNoChangesBlankSlate E H props st)) =
                        [BlankslateAction ''Publish your repository to GitHub'' description
                           (renderDiscoverabilityElements menuItem) ''Publish repository''
                           OnPublishRepositoryClicked ''primary''])))
     \<and> click props OnPublishRepositoryClicked = ShowPopup (PublishRepository (repository props))"
  by (simp add: primaryActions_renderNew [OF v] renderRemoteAction_def
      renderPublishRepositoryAction_valid [OF v] split: option.splits)

text \<open>The sample menu with no remote, and with a remote.\<close>

theorem publish_is_the_only_primary_action_witness:
  "cacheValid sampleEnv sampleStore initialState
   \<and> (\<exists>description.
        primaryActions
          (fst (renderNewNoChangesBlankSlate sampleEnv sampleStore (propsFor (Some 0) None)
             initialState)) =
          [BlankslateAction ''Publish your repository to GitHub'' description
             (renderDiscoverabilityElements
                \<lparr>label = ''Push'', acceleratorKeys = [''CmdOrCtrl'', ''P''],
                   parentMenuLabels = [''Repository''], enabled = False\<rparr>)
             ''Publish repository'' OnPublishRepositoryClicked ''primary''])
   \<and> primaryActions
        (fst (renderNewNoChangesBlankSlate sampleEnv sampleStore
           (propsFor (Some 0) (Some ''origin'')) initialState)) = []"
  using publish_is_the_only_primary_action
      [OF initial_valid, of sampleEnv sampleStore "propsFor (Some 0) None"]
    publish_is_the_only_primary_action
      [OF initial_valid, of sampleEnv sampleStore "propsFor (Some 0) (Some ''origin'')"]
  by (simp add: sampleIndex initial_valid)

text \<open>Without a menu and without a remote, the panel has no primary action.\<close>

theorem publish_without_push_counterexample:
  "remote (repositoryState (propsFor None None)) = None
   \<and> primaryActions
        (fst (renderNewNoChangesBlankSlate sampleEnv sampleStore (propsFor None None)
           initialState)) = []"
  by (simp add: primaryActions_renderNew [OF initial_valid] renderRemoteAction_def
      renderPublishRepositoryAction_valid [OF initial_valid] computeMenuInfoMap_def)

text \<open>
  Claim C2, for every menu tree and with the case of distinct identifiers singled out.
  \<open>buildMenuItemInfoMap\<close> is a total function on menu trees.  The keys of the index it builds are exactly the identifiers of the items that are not
  separators, each key once, and every entry carries the identifier, label, enabled flag and
  accelerator keys of such an item.  When those identifiers are pairwise distinct, the
  entries are, in the order of the walk, exactly one per item that is not a separator.
  A separator gives no entry, and having no menu it is not traversed.
\<close>

theorem buildMenuItemInfoMap_index:
  "fst ` set (buildMenuItemInfoMap pf menu [] None) = item_id ` set (nonSeparatorItems menu)
   \<and> distinct (map fst (buildMenuItemInfoMap pf menu [] None))
   \<and> entryView ` set (buildMenuItemInfoMap pf menu [] None)
        \<subseteq> itemView pf ` set (nonSeparatorItems menu)
   \<and> (distinct (map item_id (nonSeparatorItems menu)) \<longrightarrow>
        map entryView (buildMenuItemInfoMap pf menu [] None)
          = map (itemView pf) (nonSeparatorItems menu))"
proof -
  let ?es = "menuEntries pf menu None"
  let ?its = "nonSeparatorItems menu"
  have b: "buildMenuItemInfoMap pf menu [] None = setAll ?es []"
    by (rule build_setAll)
  have view: "map entryView ?es = map (itemView pf) ?its"
    by (rule entries_view)
  have ids: "map fst ?es = map item_id ?its"
  proof -
    have "map fst ?es = map fst (map entryView ?es)" by (simp add: entryView_def)
    also have "\<dots> = map fst (map (itemView pf) ?its)" by (simp only: view)
    also have "\<dots> = map item_id ?its" by (simp add: itemView_def)
    finally show ?thesis .
  qed
  have keys: "fst ` set (setAll ?es []) = item_id ` set ?its"
  proof -
    have "fst ` set (setAll ?es []) = set (map fst ?es)" by (simp add: setAll_keys)
    also have "\<dots> = item_id ` set ?its" by (simp only: ids set_map)
    finally show ?thesis .
  qed
  have dist: "distinct (map fst (setAll ?es []))" by (rule setAll_distinct) simp
  have sub: "entryView ` set (setAll ?es []) \<subseteq> itemView pf ` set ?its"
  proof
    fix x assume "x \<in> entryView ` set (setAll ?es [])"
    then obtain k v where kv: "(k, v) \<in> set (setAll ?es [])" and x: "x = entryView (k, v)"
      by auto
    from kv have "(k, v) \<in> set ?es" by (rule entries_of_index)
    then have "x \<in> set (map entryView ?es)" using x by simp
    then show "x \<in> itemView pf ` set ?its" by (simp only: view set_map)
  qed
  have exact: "map entryView (setAll ?es []) = map (itemView pf) ?its"
    if "distinct (map item_id ?its)"
  proof -
    from that have "distinct (map fst ([] @ ?es))" by (simp add: ids)
    then have "setAll ?es [] = [] @ ?es" by (rule setAll_fresh)
    then show ?thesis by (simp add: view)
  qed
  from keys dist sub exact show ?thesis by (simp only: b) blast
qed

text \<open>The index of the sample menu.\<close>

theorem buildMenuItemInfoMap_index_witness:
  "distinct (map item_id (nonSeparatorItems sampleMenu))
   \<and> map entryView (buildMenuItemInfoMap id sampleMenu [] None) =
       [(''file'', ''File'', True, []),
        (''preferences'', ''Options'', True, [''CmdOrCtrl'', '','']),
        (''repository'', ''Repository'', True, []),
        (''push'', ''Push'', False, [''CmdOrCtrl'', ''P'']),
        (''open-working-directory'', ''Show in Explorer'', True, [''CmdOrCtrl'', ''Shift'', ''F'']),
        (''open-external-editor'', ''Open in external editor'', True,
           [''CmdOrCtrl'', ''Shift'', ''A'']),
        (''view-repository-on-github'', ''View on GitHub'', False, [])]"
proof -
  have d: "distinct (map item_id (nonSeparatorItems sampleMenu))"
    by (simp add: sampleMenu_def)
  have e: "map entryView (buildMenuItemInfoMap id sampleMenu [] None) =
      map (itemView id) (nonSeparatorItems sampleMenu)"
    using buildMenuItemInfoMap_index [of id sampleMenu] d by blast
  have v: "map (itemView id) (nonSeparatorItems sampleMenu) =
       [(''file'', ''File'', True, []),
        (''preferences'', ''Options'', True, [''CmdOrCtrl'', '','']),
        (''repository'', ''Repository'', True, []),
        (''push'', ''Push'', False, [''CmdOrCtrl'', ''P'']),
        (''open-working-directory'', ''Show in Explorer'', True, [''CmdOrCtrl'', ''Shift'', ''F'']),
        (''open-external-editor'', ''Open in external editor'', True,
           [''CmdOrCtrl'', ''Shift'', ''A'']),
        (''view-repository-on-github'', ''View on GitHub'', False, [])]"
    by (simp add: sampleMenu_def itemView_def split_def)
  from d e v show ?thesis by (simp only:) 
qed

text \<open>Two items with one identifier give one entry, which carries the second label.\<close>

theorem duplicate_identifier_counterexample:
  "length (nonSeparatorItems duplicateMenu) = 2
   \<and> buildMenuItemInfoMap id duplicateMenu [] None =
       [(''a'', \<lparr>label = ''Second'', acceleratorKeys = [], parentMenuLabels = [],
                 enabled = False\<rparr>)]"
  by (simp add: duplicateMenu_def infoItem_def)

text \<open>
  Claim C3.  The accelerator key list of a separator and of a submenu container is empty,
  that of a leaf item whose accelerator is \<open>null\<close> is empty, and that of a leaf item with
  an accelerator is the accelerator split on \<open>+\<close> with every token mapped through the
  platform-specific name lookup.  The split is the one that joins back to the accelerator
  with \<open>+\<close>, has no \<open>+\<close> in a token, and has one token more than the accelerator has
  \<open>+\<close> characters.
\<close>

theorem getItemAcceleratorKeys_cases:
  "getItemAcceleratorKeys pf (Separator i) = []
   \<and> getItemAcceleratorKeys pf (SubmenuItem i l e m) = []
   \<and> getItemAcceleratorKeys pf (Item i l e None) = []
   \<and> getItemAcceleratorKeys pf (Item i l e (Some a)) = map pf (split a (CHR ''+''))
   \<and> join (split a (CHR ''+'')) ''+'' = a
   \<and> CHR ''+'' \<notin> set (concat (split a (CHR ''+'')))
   \<and> length (split a (CHR ''+'')) = Suc (count_list a (CHR ''+''))"
  using split_from_free [of "CHR ''+''" "[]" a]
  by (simp add: split_def join_split_from length_split_from del: set_concat)

text \<open>
  Claim C4.  When an identifier that a menu-backed action looks up is absent from the
  index, the render helper of that action returns \<open>null\<close> and appends one entry of
  severity \<open>Error\<close> to the log.  The helpers are total functions with no failing branch.
  The remaining actions still render: \<open>renderActions\<close> returns the fragment of the
  primary block and the three secondary actions, every other secondary action whose own
  item is in the index and enabled, and whose looked-up identifiers are all in the index, is
  there as a \<open>MenuBackedBlankslateAction\<close> for its item, and with no remote and
  \<open>push\<close> in the index the publish action is there as well.
\<close>

theorem absent_identifier_omits_action:
  assumes "cacheValid E H st"
    and "itemId \<in> set (referencedIds a)"
    and "map_of (computeMenuInfoMap E H (appMenu props)) itemId = None"
  shows "fst (renderAffordance E H props a st) = Null
     \<and> logged (snd (renderAffordance E H props a st)) =
         logged st @ [(Error, ''Could not find matching menu item for '' @ menuIdOf a)]
     \<and> fst (renderActions E H props st) =
         Fragment
           [if fst (renderRemoteAction E H props st) = Null then Null
            else Element ''div'' [(''className'', ''actions primary'')]
                   [fst (renderRemoteAction E H props st)],
            Element ''div'' [(''className'', ''actions'')]
              [fst (renderAffordance E H props ShowInFinder st),
               fst (renderAffordance E H props OpenInExternalEditor st),
               fst (renderAffordance E H props ViewOnGitHub st)]]
     \<and> (secondary b
          \<and> map_of (computeMenuInfoMap E H (appMenu props)) (menuIdOf b) = Some menuItem
          \<and> enabled menuItem
          \<and> list_all (\<lambda>i. map_of (computeMenuInfoMap E H (appMenu props)) i \<noteq> None)
               (referencedIds b) \<longrightarrow>
        (\<exists>title description.
           fst (renderAffordance E H props b st) =
             MenuBackedBlankslateAction title description
               (renderDiscoverabilityElements menuItem) (menuIdOf b) (label menuItem)))
     \<and> (remote (repositoryState props) = None
          \<and> map_of (computeMenuInfoMap E H (appMenu props)) ''push'' = Some pushItem \<longrightarrow>
        (\<exists>description.
           fst (renderRemoteAction E H props st) =
             BlankslateAction ''Publish your repository to GitHub'' description
               (renderDiscoverabilityElements pushItem) ''Publish repository''
               OnPublishRepositoryClicked ''primary''))"
proof (intro conjI impI)
  show "fst (renderAffordance E H props a st) = Null"
    using renderAffordance_absent [OF assms] by simp
  show "logged (snd (renderAffordance E H props a st)) =
         logged st @ [(Error, ''Could not find matching menu item for '' @ menuIdOf a)]"
    using renderAffordance_absent [OF assms] by simp
  show "fst (renderActions E H props st) =
         Fragment
           [if fst (renderRemoteAction E H props st) = Null then Null
            else Element ''div'' [(''className'', ''actions primary'')]
                   [fst (renderRemoteAction E H props st)],
            Element ''div'' [(''className'', ''actions'')]
              [fst (renderAffordance E H props ShowInFinder st),
               fst (renderAffordance E H props OpenInExternalEditor st),
               fst (renderAffordance E H props ViewOnGitHub st)]]"
    using renderActions_shape [OF assms(1), of props] by simp
next
  assume "secondary b
      \<and> map_of (computeMenuInfoMap E H (appMenu props)) (menuIdOf b) = Some menuItem
      \<and> enabled menuItem
      \<and> list_all (\<lambda>i. map_of (computeMenuInfoMap E H (appMenu props)) i \<noteq> None)
           (referencedIds b)"
  then show "\<exists>title description.
           fst (renderAffordance E H props b st) =
             MenuBackedBlankslateAction title description
               (renderDiscoverabilityElements menuItem) (menuIdOf b) (label menuItem)"
    using renderAffordance_present [OF assms(1)] by blast
next
  assume "remote (repositoryState props) = None
      \<and> map_of (computeMenuInfoMap E H (appMenu props)) ''push'' = Some pushItem"
  then show "\<exists>description.
           fst (renderRemoteAction E H props st) =
             BlankslateAction ''Publish your repository to GitHub'' description
               (renderDiscoverabilityElements pushItem) ''Publish repository''
               OnPublishRepositoryClicked ''primary''"
    using renderRemoteAction_present [OF assms(1)] by blast
qed

text \<open>
  The menu that lacks \<open>view-repository-on-github\<close>: that action is omitted with one
  error logged, and the publish, file-manager and external-editor actions are rendered.
\<close>

theorem absent_identifier_omits_action_witness:
  "cacheValid sampleEnv partialStore initialState
   \<and> ''view-repository-on-github'' \<in> set (referencedIds ViewOnGitHub)
   \<and> map_of (computeMenuInfoMap sampleEnv partialStore (appMenu (propsFor (Some 0) None)))
        ''view-repository-on-github'' = None
   \<and> secondary ShowInFinder
   \<and> map_of (computeMenuInfoMap sampleEnv partialStore (appMenu (propsFor (Some 0) None)))
        (menuIdOf ShowInFinder) =
       Some \<lparr>label = ''Show in Explorer'', acceleratorKeys = [''CmdOrCtrl'', ''Shift'', ''F''],
              parentMenuLabels = [''Repository''], enabled = True\<rparr>
   \<and> list_all
        (\<lambda>i. map_of (computeMenuInfoMap sampleEnv partialStore (appMenu (propsFor (Some 0) None)))
               i \<noteq> None)
        (referencedIds ShowInFinder)
   \<and> remote (repositoryState (propsFor (Some 0) None)) = None
   \<and> map_of (computeMenuInfoMap sampleEnv partialStore (appMenu (propsFor (Some 0) None)))
        ''push'' =
       Some \<lparr>label = ''Push'', acceleratorKeys = [''CmdOrCtrl'', ''P''],
              parentMenuLabels = [''Repository''], enabled = True\<rparr>
   \<and> fst (renderAffordance sampleEnv partialStore (propsFor (Some 0) None) ViewOnGitHub
        initialState) = Null
   \<and> logged (snd (renderAffordance sampleEnv partialStore (propsFor (Some 0) None)
        ViewOnGitHub initialState)) =
       [(Error, ''Could not find matching menu item for view-repository-on-github'')]
   \<and> (\<exists>title description.
         fst (renderAffordance sampleEnv partialStore (propsFor (Some 0) None) ShowInFinder
           initialState) =
           MenuBackedBlankslateAction title description
             (renderDiscoverabilityElements
                \<lparr>label = ''Show in Explorer'',
                   acceleratorKeys = [''CmdOrCtrl'', ''Shift'', ''F''],
                   parentMenuLabels = [''Repository''], enabled = True\<rparr>)
             ''open-working-directory'' ''Show in Explorer'')
   \<and> (\<exists>description.
         fst (renderRemoteAction sampleEnv partialStore (propsFor (Some 0) None) initialState) =
           BlankslateAction ''Publish your repository to GitHub'' description
             (renderDiscoverabilityElements
                \<lparr>label = ''Push'', acceleratorKeys = [''CmdOrCtrl'', ''P''],
                   parentMenuLabels = [''Repository''], enabled = True\<rparr>)
             ''Publish repository'' OnPublishRepositoryClicked ''primary'')
   \<and> fst (renderActions sampleEnv partialStore (propsFor (Some 0) None) initialState) =
       Fragment
         [Element ''div'' [(''className'', ''actions primary'')]
            [BlankslateAction ''Publish your repository to GitHub''
               ''This repository is currently only available on your local machine. By publishing it on GitHub you can share it, and collaborate with others.''
               (Fragment
                  [Text ''Repository'', Text '' menu or '',
                   Array
                     [Element ''kbd'' [(''key'', ''CmdOrCtrl0'')] [Text ''CmdOrCtrl''],
                      Element ''kbd'' [(''key'', ''P1'')] [Text ''P'']]])
               ''Publish repository'' OnPublishRepositoryClicked ''primary''],
          Element ''div'' [(''className'', ''actions'')]
            [MenuBackedBlankslateAction ''View the files in your repository in Explorer'' None
               (Fragment
                  [Text ''Repository'', Text '' menu or '',
                   Array
                     [Element ''kbd'' [(''key'', ''CmdOrCtrl0'')] [Text ''CmdOrCtrl''],
                      Element ''kbd'' [(''key'', ''Shift1'')] [Text ''Shift''],
                      Element ''kbd'' [(''key'', ''F2'')] [Text ''F'']]])
               ''open-working-directory'' ''Show in Explorer'',
             MenuBackedBlankslateAction ''Open the repository in your external editor''
               (Some
                  (Fragment
                     [Text ''Configure which editor you wish to use in'', Text '' '',
                      LinkButton OpenPreferences [Text ''options'']]))
               (Fragment [Text ''Repository'', Text '' menu or '', Array []])
               ''open-external-editor'' ''Open in external editor'',
             Null]]"
proof -
  let ?P = "propsFor (Some 0) None :: (string, string) INoChangesProps"
  let ?idx = "computeMenuInfoMap sampleEnv partialStore (appMenu ?P)"
  let ?show = "\<lparr>label = ''Show in Explorer'', acceleratorKeys = [''CmdOrCtrl'', ''Shift'', ''F''],
              parentMenuLabels = [''Repository''], enabled = True\<rparr>"
  let ?push = "\<lparr>label = ''Push'', acceleratorKeys = [''CmdOrCtrl'', ''P''],
              parentMenuLabels = [''Repository''], enabled = True\<rparr>"
  have v: "cacheValid sampleEnv partialStore initialState" by (rule initial_valid)
  have h1: "''view-repository-on-github'' \<in> set (referencedIds ViewOnGitHub)" by simp
  have h2: "map_of ?idx ''view-repository-on-github'' = None" by (simp add: partialIndex)
  have s1: "secondary ShowInFinder" by simp
  have s2: "map_of ?idx (menuIdOf ShowInFinder) = Some ?show" by (simp add: partialIndex)
  have s3: "enabled ?show" by simp
  have s4: "list_all (\<lambda>i. map_of ?idx i \<noteq> None) (referencedIds ShowInFinder)"
    by (simp add: partialIndex)
  have r1: "remote (repositoryState ?P) = None" by simp
  have r2: "map_of ?idx ''push'' = Some ?push" by (simp add: partialIndex)
  note t = absent_identifier_omits_action
    [OF v h1 h2, where b = ShowInFinder and menuItem = ?show and pushItem = ?push]
  have c1: "fst (renderAffordance sampleEnv partialStore ?P ViewOnGitHub initialState) = Null"
    using t by blast
  have c2: "logged (snd (renderAffordance sampleEnv partialStore ?P ViewOnGitHub initialState)) =
       [(Error, ''Could not find matching menu item for view-repository-on-github'')]"
    using t by (simp add: initialState_def del: renderAffordance.simps)
  have c3: "fst (renderActions sampleEnv partialStore ?P initialState) =
         Fragment
           [if fst (renderRemoteAction sampleEnv partialStore ?P initialState) = Null then Null
            else Element ''div'' [(''className'', ''actions primary'')]
                   [fst (renderRemoteAction sampleEnv partialStore ?P initialState)],
            Element ''div'' [(''className'', ''actions'')]
              [fst (renderAffordance sampleEnv partialStore ?P ShowInFinder initialState),
               fst (renderAffordance sampleEnv partialStore ?P OpenInExternalEditor initialState),
               fst (renderAffordance sampleEnv partialStore ?P ViewOnGitHub initialState)]]"
    using t by blast
  have c4: "\<exists>title description.
         fst (renderAffordance sampleEnv partialStore ?P ShowInFinder initialState) =
           MenuBackedBlankslateAction title description
             (renderDiscoverabilityElements ?show) ''open-working-directory'' ''Show in Explorer''"
    using t s1 s2 s3 s4 by (simp del: renderAffordance.simps)
  have c5: "\<exists>description.
         fst (renderRemoteAction sampleEnv partialStore ?P initialState) =
           BlankslateAction ''Publish your repository to GitHub'' description
             (renderDiscoverabilityElements ?push)
             ''Publish repository'' OnPublishRepositoryClicked ''primary''"
    using t r1 r2 by blast
  have c6: "fst (renderActions sampleEnv partialStore ?P initialState) =
       Fragment
         [Element ''div'' [(''className'', ''actions primary'')]
            [BlankslateAction ''Publish your repository to GitHub''
               ''This repository is currently only available on your local machine. By publishing it on GitHub you can share it, and collaborate with others.''
               (Fragment
                  [Text ''Repository'', Text '' menu or '',
                   Array
                     [Element ''kbd'' [(''key'', ''CmdOrCtrl0'')] [Text ''CmdOrCtrl''],
                      Element ''kbd'' [(''key'', ''P1'')] [Text ''P'']]])
               ''Publish repository'' OnPublishRepositoryClicked ''primary''],
          Element ''div'' [(''className'', ''actions'')]
            [MenuBackedBlankslateAction ''View the files in your repository in Explorer'' None
               (Fragment
                  [Text ''Repository'', Text '' menu or '',
                   Array
                     [Element ''kbd'' [(''key'', ''CmdOrCtrl0'')] [Text ''CmdOrCtrl''],
                      Element ''kbd'' [(''key'', ''Shift1'')] [Text ''Shift''],
                      Element ''kbd'' [(''key'', ''F2'')] [Text ''F'']]])
               ''open-working-directory'' ''Show in Explorer'',
             MenuBackedBlankslateAction ''Open the repository in your external editor''
               (Some
                  (Fragment
                     [Text ''Configure which editor you wish to use in'', Text '' '',
                      LinkButton OpenPreferences [Text ''options'']]))
               (Fragment [Text ''Repository'', Text '' menu or '', Array []])
               ''open-external-editor'' ''Open in external editor'',
             Null]]"
    unfolding c3 c1 partial_remote partial_show partial_editor by simp
  from v h1 h2 s1 s2 s4 r1 r2 c1 c2 c4 c5 c6 show ?thesis by (intro conjI)
qed

text \<open>
  Claim C5.  For each of the three secondary actions, when the identifier of the action is
  in the index with its enabled flag false, the render helper of the action returns
  \<open>null\<close>.
\<close>

theorem disabled_item_omits_action:
  assumes "cacheValid E H st"
    and "secondary a"
    and "map_of (computeMenuInfoMap E H (appMenu props)) (menuIdOf a) = Some menuItem"
    and "\<not> enabled menuItem"
  shows "fst (renderAffordance E H props a st) = Null"
  using assms by (rule renderAffordance_disabled)

text \<open>The view-on-GitHub action on the sample menu, where its item is disabled.\<close>

theorem disabled_item_omits_action_witness:
  "cacheValid sampleEnv sampleStore initialState
   \<and> secondary ViewOnGitHub
   \<and> map_of (computeMenuInfoMap sampleEnv sampleStore (appMenu (propsFor (Some 0) None)))
        (menuIdOf ViewOnGitHub) =
       Some \<lparr>label = ''View on GitHub'', acceleratorKeys = [],
              parentMenuLabels = [''Repository''], enabled = False\<rparr>
   \<and> \<not> enabled \<lparr>label = ''View on GitHub'', acceleratorKeys = [],
              parentMenuLabels = [''Repository''], enabled = False\<rparr>
   \<and> fst (renderAffordance sampleEnv sampleStore (propsFor (Some 0) None) ViewOnGitHub
        initialState) = Null"
proof -
  have h1: "secondary ViewOnGitHub" by simp
  have h2: "map_of (computeMenuInfoMap sampleEnv sampleStore (appMenu (propsFor (Some 0) None)))
        (menuIdOf ViewOnGitHub) =
       Some \<lparr>label = ''View on GitHub'', acceleratorKeys = [],
              parentMenuLabels = [''Repository''], enabled = False\<rparr>"
    by (simp add: sampleIndex)
  have h3: "\<not> enabled \<lparr>label = ''View on GitHub'', acceleratorKeys = [],
              parentMenuLabels = [''Repository''], enabled = False\<rparr>" by simp
  from disabled_item_omits_action [OF initial_valid h1 h2 h3] h1 h2
  show ?thesis by (simp add: initial_valid del: renderAffordance.simps)
qed

text \<open>
  Claim C6.  The open-in-external-editor action is rendered exactly when
  \<open>open-external-editor\<close> is in the index and enabled and \<open>preferences\<close> is in the
  index; so it is rendered only if both identifiers are there.  When either is absent the
  helper returns \<open>null\<close> and logs an error.
\<close>

theorem external_editor_needs_both:
  assumes v: "cacheValid E H st"
  shows "(fst (renderOpenInExternalEditor E H props st) \<noteq> Null) =
           (\<exists>menuItem. map_of (computeMenuInfoMap E H (appMenu props)) ''open-external-editor''
                          = Some menuItem \<and> enabled menuItem
              \<and> map_of (computeMenuInfoMap E H (appMenu props)) ''preferences'' \<noteq> None)
     \<and> (map_of (computeMenuInfoMap E H (appMenu props)) ''open-external-editor'' = None
          \<or> map_of (computeMenuInfoMap E H (appMenu props)) ''preferences'' = None \<longrightarrow>
        fst (renderOpenInExternalEditor E H props st) = Null
        \<and> logged (snd (renderOpenInExternalEditor E H props st)) =
            logged st @
              [(Error, ''Could not find matching menu item for open-external-editor'')])"
  by (auto simp add: renderOpenInExternalEditor_valid [OF v] split: option.splits)

text \<open>The external editor action on the sample menu and on the menu that lacks \<open>preferences\<close>.\<close>

theorem external_editor_needs_both_witness:
  "cacheValid sampleEnv sampleStore initialState
   \<and> fst (renderOpenInExternalEditor sampleEnv sampleStore (propsFor (Some 0) None)
        initialState) \<noteq> Null
   \<and> map_of (computeMenuInfoMap sampleEnv sampleStore (appMenu (propsFor (Some 1) None)))
        ''preferences'' = None
   \<and> fst (renderOpenInExternalEditor sampleEnv sampleStore (propsFor (Some 1) None)
        initialState) = Null
   \<and> logged (snd (renderOpenInExternalEditor sampleEnv sampleStore (propsFor (Some 1) None)
        initialState)) =
       [(Error, ''Could not find matching menu item for open-external-editor'')]"
proof -
  have l: "logged initialState = []" by (simp add: initialState_def)
  from external_editor_needs_both
      [OF initial_valid, of sampleEnv sampleStore "propsFor (Some 0) None"]
    external_editor_needs_both
      [OF initial_valid, of sampleEnv sampleStore "propsFor (Some 1) None"] l
  show ?thesis by (simp add: initial_valid sampleIndex smallIndex)
qed

text \<open>
  Claim C7.  A second lookup with the same menu reference returns the result and the state
  of the first, whatever function the second one would have run (here: whatever environment
  and store), so nothing is rebuilt.  A lookup with a reference other than the one in the
  slot computes the index of the new menu and stores it with that reference.  When the
  slot is valid, the lookup returns the index of the menu supplied, and afterwards the slot
  holds that menu and its index.
\<close>

theorem getMenuInfoMap_memo:
  "getMenuInfoMap E' H' menu (snd (getMenuInfoMap E H menu st)) = getMenuInfoMap E H menu st
   \<and> ((\<forall>r. memo st \<noteq> Some (menu, r)) \<longrightarrow>
        getMenuInfoMap E H menu st =
          (computeMenuInfoMap E H menu, st\<lparr>memo := Some (menu, computeMenuInfoMap E H menu)\<rparr>))
   \<and> (cacheValid E H st \<longrightarrow>
        fst (getMenuInfoMap E H menu st) = computeMenuInfoMap E H menu
        \<and> memo (snd (getMenuInfoMap E H menu st)) = Some (menu, computeMenuInfoMap E H menu)
        \<and> cacheValid E H (snd (getMenuInfoMap E H menu st)))"
proof (intro conjI impI)
  show "getMenuInfoMap E' H' menu (snd (getMenuInfoMap E H menu st)) = getMenuInfoMap E H menu st"
    by (cases "memo st") (auto simp: getMenuInfoMap_def memoizeOne_def)
next
  assume "\<forall>r. memo st \<noteq> Some (menu, r)"
  then show "getMenuInfoMap E H menu st =
          (computeMenuInfoMap E H menu, st\<lparr>memo := Some (menu, computeMenuInfoMap E H menu)\<rparr>)"
    by (cases "memo st") (auto simp: getMenuInfoMap_def memoizeOne_def)
next
  assume v: "cacheValid E H st"
  show "fst (getMenuInfoMap E H menu st) = computeMenuInfoMap E H menu"
    by (simp add: getMenuInfoMap_valid [OF v])
  show "memo (snd (getMenuInfoMap E H menu st)) = Some (menu, computeMenuInfoMap E H menu)"
    by (simp add: getMenuInfoMap_valid [OF v])
  show "cacheValid E H (snd (getMenuInfoMap E H menu st))"
    by (simp add: getMenuInfoMap_valid [OF v])
qed

text \<open>A lookup of the sample menu after a render without a menu, and the same lookup again.\<close>

theorem getMenuInfoMap_memo_witness:
  "(\<forall>r. memo warmState \<noteq> Some (Some 0, r))
   \<and> cacheValid sampleEnv sampleStore warmState
   \<and> getMenuInfoMap legacyEnv sampleStore (Some 0)
        (snd (getMenuInfoMap sampleEnv sampleStore (Some 0) warmState)) =
       getMenuInfoMap sampleEnv sampleStore (Some 0) warmState
   \<and> getMenuInfoMap sampleEnv sampleStore (Some 0) warmState =
       (computeMenuInfoMap sampleEnv sampleStore (Some 0),
        warmState\<lparr>memo := Some (Some 0, computeMenuInfoMap sampleEnv sampleStore (Some 0))\<rparr>)
   \<and> memo (snd (getMenuInfoMap sampleEnv sampleStore (Some 0) warmState)) =
       Some (Some 0, computeMenuInfoMap sampleEnv sampleStore (Some 0))"
proof -
  have h: "\<forall>r. memo warmState \<noteq> Some (Some 0, r)" by (simp add: warmState_def)
  have v: "cacheValid sampleEnv sampleStore warmState"
    by (simp add: warmState_def cacheValid_def computeMenuInfoMap_def)
  from getMenuInfoMap_memo [of legacyEnv sampleStore "Some 0" sampleEnv sampleStore warmState]
    h v
  show ?thesis by blast
qed

text \<open>
  Claim C8.  When the feature flag is false, \<open>render\<close> returns the legacy panel (the
  image, the message and the sentence with its link) and leaves the state as it was; the
  panel has exactly one link, and clicking it calls \<open>revealInFileManager\<close> with the
  repository of the props and the empty string.  When the flag is true, \<open>render\<close>
  returns the Enhanced panel: the header with its title, text and image, followed by the
  actions of \<open>renderActions\<close>, the primary block and the three secondary actions.
\<close>

theorem render_flag:
  "(\<not> enableNewNoChangesBlankslate E \<longrightarrow>
      render E H props st = (renderClassicBlankSlate E, st)
      \<and> linkButtons (renderClassicBlankSlate E) = [Open]
      \<and> click props Open = RevealInFileManager (repository props) ''''
      \<and> fst (render E H props st) =
          Element ''div'' [(''className'', ''panel blankslate''), (''id'', ''no-changes'')]
            [Element ''img''
               [(''src'', BlankSlateImage E), (''className'', ''blankslate-image'')] [],
             Element ''div'' [] [Text ''No local changes''],
             Element ''div'' []
               [Text ''Would you like to'', Text '' '',
                LinkButton Open [Text ''open this repository''],
                Text '' in'', Text '' '',
                Text (if DARWIN E then ''Finder''
                      else if WIN32 E then ''Explorer'' else ''your File Manager''),
                Text ''?'']])
   \<and> (enableNewNoChangesBlankslate E \<longrightarrow>
      render E H props st = renderNewNoChangesBlankSlate E H props st
      \<and> fst (render E H props st) =
          Element ''div'' [(''id'', ''no-changes''), (''className'', ''ng'')]
            [Element ''div'' [(''className'', ''content'')]
               [Element ''div'' [(''className'', ''header'')]
                  [Element ''div'' [(''className'', ''text'')]
                     [Element ''h1'' [] [Text ''No local changes''],
                      Element ''p'' []
                        [Text ''You have no uncommitted changes in your repository! Here are some friendly suggestions for what to do next.'']],
                   Element ''img''
                     [(''src'', PaperStackImage E), (''className'', ''blankslate-image'')] []],
                fst (renderActions E H props st)]]
      \<and> snd (render E H props st) = snd (renderActions E H props st)
      \<and> (cacheValid E H st \<longrightarrow>
           fst (renderActions E H props st) =
             Fragment
               [if fst (renderRemoteAction E H props st) = Null then Null
                else Element ''div'' [(''className'', ''actions primary'')]
                       [fst (renderRemoteAction E H props st)],
                Element ''div'' [(''className'', ''actions'')]
                  [fst (renderShowInFinderAction E H props st),
                   fst (renderOpenInExternalEditor E H props st),
                   fst (renderViewOnGitHub E H props st)]]))"
proof (intro conjI impI)
  assume f: "\<not> enableNewNoChangesBlankslate E"
  show "render E H props st = (renderClassicBlankSlate E, st)"
    using f by (simp add: render_def)
  show "linkButtons (renderClassicBlankSlate E) = [Open]"
    by (simp add: renderClassicBlankSlate_def)
  show "click props Open = RevealInFileManager (repository props) ''''" by simp
  show "fst (render E H props st) =
          Element ''div'' [(''className'', ''panel blankslate''), (''id'', ''no-changes'')]
            [Element ''img''
               [(''src'', BlankSlateImage E), (''className'', ''blankslate-image'')] [],
             Element ''div'' [] [Text ''No local changes''],
             Element ''div'' []
               [Text ''Would you like to'', Text '' '',
                LinkButton Open [Text ''open this repository''],
                Text '' in'', Text '' '',
                Text (if DARWIN E then ''Finder''
                      else if WIN32 E then ''Explorer'' else ''your File Manager''),
                Text ''?'']]"
    using f by (simp add: render_def renderClassicBlankSlate_def)
next
  assume f: "enableNewNoChangesBlankslate E"
  show "render E H props st = renderNewNoChangesBlankSlate E H props st"
    using f by (simp add: render_def)
  show "fst (render E H props st) =
          Element ''div'' [(''id'', ''no-changes''), (''className'', ''ng'')]
            [Element ''div'' [(''className'', ''content'')]
               [Element ''div'' [(''className'', ''header'')]
                  [Element ''div'' [(''className'', ''text'')]
                     [Element ''h1'' [] [Text ''No local changes''],
                      Element ''p'' []
                        [Text ''You have no uncommitted changes in your repository! Here are some friendly suggestions for what to do next.'']],
                   Element ''img''
                     [(''src'', PaperStackImage E), (''className'', ''blankslate-image'')] []],
                fst (renderActions E H props st)]]"
    using f renderNew_structure [of E H props st] by (simp add: render_def)
  show "snd (render E H props st) = snd (renderActions E H props st)"
    using f renderNew_structure [of E H props st] by (simp add: render_def)
  assume v: "cacheValid E H st"
  show "fst (renderActions E H props st) =
             Fragment
               [if fst (renderRemoteAction E H props st) = Null then Null
                else Element ''div'' [(''className'', ''actions primary'')]
                       [fst (renderRemoteAction E H props st)],
                Element ''div'' [(''className'', ''actions'')]
                  [fst (renderShowInFinderAction E H props st),
                   fst (renderOpenInExternalEditor E H props st),
                   fst (renderViewOnGitHub E H props st)]]"
    by (rule renderActions_shape [OF v])
qed

text \<open>The flag off and the flag on, both panels evaluated on the sample menu.\<close>

theorem render_flag_witness:
  "\<not> enableNewNoChangesBlankslate legacyEnv
   \<and> render legacyEnv sampleStore (propsFor (Some 0) None) initialState =
       (renderClassicBlankSlate legacyEnv, initialState)
   \<and> linkButtons (renderClassicBlankSlate legacyEnv) = [Open]
   \<and> click (propsFor (Some 0) None) Open = RevealInFileManager ''desktop'' ''''
   \<and> fst (render legacyEnv sampleStore (propsFor (Some 0) None) initialState) =
       Element ''div'' [(''className'', ''panel blankslate''), (''id'', ''no-changes'')]
         [Element ''img''
            [(''src'', ''static/empty-no-file-selected.svg''),
             (''className'', ''blankslate-image'')] [],
          Element ''div'' [] [Text ''No local changes''],
          Element ''div'' []
            [Text ''Would you like to'', Text '' '',
             LinkButton Open [Text ''open this repository''],
             Text '' in'', Text '' '', Text ''Explorer'', Text ''?'']]
   \<and> enableNewNoChangesBlankslate sampleEnv
   \<and> cacheValid sampleEnv sampleStore initialState
   \<and> render sampleEnv sampleStore (propsFor (Some 0) None) initialState =
       renderNewNoChangesBlankSlate sampleEnv sampleStore (propsFor (Some 0) None) initialState
   \<and> fst (render sampleEnv sampleStore (propsFor (Some 0) None) initialState) =
       Element ''div'' [(''id'', ''no-changes''), (''className'', ''ng'')]
         [Element ''div'' [(''className'', ''content'')]
            [Element ''div'' [(''className'', ''header'')]
               [Element ''div'' [(''className'', ''text'')]
                  [Element ''h1'' [] [Text ''No local changes''],
                   Element ''p'' []
                     [Text ''You have no uncommitted changes in your repository! Here are some friendly suggestions for what to do next.'']],
                Element ''img''
                  [(''src'', ''static/paper-stack.svg''), (''className'', ''blankslate-image'')]
                  []],
             Fragment
               [Element ''div'' [(''className'', ''actions primary'')]
                  [BlankslateAction ''Publish your repository to GitHub''
                     ''This repository is currently only available on your local machine. By publishing it on GitHub you can share it, and collaborate with others.''
                     (Fragment
                        [Text ''Repository'', Text '' menu or '',
                         Array
                           [Element ''kbd'' [(''key'', ''CmdOrCtrl0'')] [Text ''CmdOrCtrl''],
                            Element ''kbd'' [(''key'', ''P1'')] [Text ''P'']]])
                     ''Publish repository'' OnPublishRepositoryClicked ''primary''],
                Element ''div'' [(''className'', ''actions'')]
                  [MenuBackedBlankslateAction
                     ''View the files in your repository in Explorer'' None
                     (Fragment
                        [Text ''Repository'', Text '' menu or '',
                         Array
                           [Element ''kbd'' [(''key'', ''CmdOrCtrl0'')] [Text ''CmdOrCtrl''],
                            Element ''kbd'' [(''key'', ''Shift1'')] [Text ''Shift''],
                            Element ''kbd'' [(''key'', ''F2'')] [Text ''F'']]])
                     ''open-working-directory'' ''Show in Explorer'',
                   MenuBackedBlankslateAction ''Open the repository in your external editor''
                     (Some
                        (Fragment
                           [Text ''Configure which editor you wish to use in'', Text '' '',
                            LinkButton OpenPreferences [Text ''options'']]))
                     (Fragment
                        [Text ''Repository'', Text '' menu or '',
                         Array
                           [Element ''kbd'' [(''key'', ''CmdOrCtrl0'')] [Text ''CmdOrCtrl''],
                            Element ''kbd'' [(''key'', ''Shift1'')] [Text ''Shift''],
                            Element ''kbd'' [(''key'', ''A2'')] [Text ''A'']]])
                     ''open-external-editor'' ''Open in external editor'',
                   Null]]]]"
proof -
  let ?P = "propsFor (Some 0) None :: (string, string) INoChangesProps"
  have h1: "\<not> enableNewNoChangesBlankslate legacyEnv" by (rule env_fields)
  have h2: "enableNewNoChangesBlankslate sampleEnv" by (rule env_fields)
  have v: "cacheValid sampleEnv sampleStore initialState" by (rule initial_valid)
  note off = render_flag [of legacyEnv sampleStore ?P initialState]
  note on = render_flag [of sampleEnv sampleStore ?P initialState]
  have a1: "render legacyEnv sampleStore ?P initialState =
      (renderClassicBlankSlate legacyEnv, initialState)"
    using off h1 by blast
  have a2: "linkButtons (renderClassicBlankSlate legacyEnv) = [Open]"
    using off h1 by blast
  have a3: "click ?P Open = RevealInFileManager ''desktop'' ''''"
    using off h1 by simp
  have a4': "fst (render legacyEnv sampleStore ?P initialState) =
       Element ''div'' [(''className'', ''panel blankslate''), (''id'', ''no-changes'')]
         [Element ''img''
            [(''src'', BlankSlateImage legacyEnv), (''className'', ''blankslate-image'')] [],
          Element ''div'' [] [Text ''No local changes''],
          Element ''div'' []
            [Text ''Would you like to'', Text '' '',
             LinkButton Open [Text ''open this repository''],
             Text '' in'', Text '' '',
             Text (if DARWIN legacyEnv then ''Finder''
                   else if WIN32 legacyEnv then ''Explorer'' else ''your File Manager''),
             Text ''?'']]"
    using off h1 by blast
  have a4: "fst (render legacyEnv sampleStore ?P initialState) =
       Element ''div'' [(''className'', ''panel blankslate''), (''id'', ''no-changes'')]
         [Element ''img''
            [(''src'', ''static/empty-no-file-selected.svg''),
             (''className'', ''blankslate-image'')] [],
          Element ''div'' [] [Text ''No local changes''],
          Element ''div'' []
            [Text ''Would you like to'', Text '' '',
             LinkButton Open [Text ''open this repository''],
             Text '' in'', Text '' '', Text ''Explorer'', Text ''?'']]"
    unfolding a4' by (simp add: env_fields)
  have b1: "render sampleEnv sampleStore ?P initialState =
      renderNewNoChangesBlankSlate sampleEnv sampleStore ?P initialState"
    using on h2 by blast
  have b2: "fst (renderActions sampleEnv sampleStore ?P initialState) =
             Fragment
               [if fst (renderRemoteAction sampleEnv sampleStore ?P initialState) = Null then Null
                else Element ''div'' [(''className'', ''actions primary'')]
                       [fst (renderRemoteAction sampleEnv sampleStore ?P initialState)],
                Element ''div'' [(''className'', ''actions'')]
                  [fst (renderShowInFinderAction sampleEnv sampleStore ?P initialState),
                   fst (renderOpenInExternalEditor sampleEnv sampleStore ?P initialState),
                   fst (renderViewOnGitHub sampleEnv sampleStore ?P initialState)]]"
    using on h2 v by blast
  have b3: "fst (render sampleEnv sampleStore ?P initialState) =
          Element ''div'' [(''id'', ''no-changes''), (''className'', ''ng'')]
            [Element ''div'' [(''className'', ''content'')]
               [Element ''div'' [(''className'', ''header'')]
                  [Element ''div'' [(''className'', ''text'')]
                     [Element ''h1'' [] [Text ''No local changes''],
                      Element ''p'' []
                        [Text ''You have no uncommitted changes in your repository! Here are some friendly suggestions for what to do next.'']],
                   Element ''img''
                     [(''src'', PaperStackImage sampleEnv), (''className'', ''blankslate-image'')]
                     []],
                fst (renderActions sampleEnv sampleStore ?P initialState)]]"
    using on h2 by blast
  have b4: "fst (render sampleEnv sampleStore (propsFor (Some 0) None) initialState) =
       Element ''div'' [(''id'', ''no-changes''), (''className'', ''ng'')]
         [Element ''div'' [(''className'', ''content'')]
            [Element ''div'' [(''className'', ''header'')]
               [Element ''div'' [(''className'', ''text'')]
                  [Element ''h1'' [] [Text ''No local changes''],
                   Element ''p'' []
                     [Text ''You have no uncommitted changes in your repository! Here are some friendly suggestions for what to do next.'']],
                Element ''img''
                  [(''src'', ''static/paper-stack.svg''), (''className'', ''blankslate-image'')]
                  []],
             Fragment
               [Element ''div'' [(''className'', ''actions primary'')]
                  [BlankslateAction ''Publish your repository to GitHub''
                     ''This repository is currently only available on your local machine. By publishing it on GitHub you can share it, and collaborate with others.''
                     (Fragment
                        [Text ''Repository'', Text '' menu or '',
                         Array
                           [Element ''kbd'' [(''key'', ''CmdOrCtrl0'')] [Text ''CmdOrCtrl''],
                            Element ''kbd'' [(''key'', ''P1'')] [Text ''P'']]])
                     ''Publish repository'' OnPublishRepositoryClicked ''primary''],
                Element ''div'' [(''className'', ''actions'')]
                  [MenuBackedBlankslateAction
                     ''View the files in your repository in Explorer'' None
                     (Fragment
                        [Text ''Repository'', Text '' menu or '',
                         Array
                           [Element ''kbd'' [(''key'', ''CmdOrCtrl0'')] [Text ''CmdOrCtrl''],
                            Element ''kbd'' [(''key'', ''Shift1'')] [Text ''Shift''],
                            Element ''kbd'' [(''key'', ''F2'')] [Text ''F'']]])
                     ''open-working-directory'' ''Show in Explorer'',
                   MenuBackedBlankslateAction ''Open the repository in your external editor''
                     (Some
                        (Fragment
                           [Text ''Configure which editor you wish to use in'', Text '' '',
                            LinkButton OpenPreferences [Text ''options'']]))
                     (Fragment
                        [Text ''Repository'', Text '' menu or '',
                         Array
                           [Element ''kbd'' [(''key'', ''CmdOrCtrl0'')] [Text ''CmdOrCtrl''],
                            Element ''kbd'' [(''key'', ''Shift1'')] [Text ''Shift''],
                            Element ''kbd'' [(''key'', ''A2'')] [Text ''A'']]])
                     ''open-external-editor'' ''Open in external editor'',
                   Null]]]]"
    unfolding b3 b2 sample_remote sample_show sample_editor sample_github
    by (simp add: env_fields)
  from h1 a1 a2 a3 a4 h2 v b1 b4 show ?thesis by (intro conjI)
qed

text \<open>
  Claim C9.  When \<open>appMenu\<close> is \<open>undefined\<close> the lookup yields the empty index, each
  of the four menu-backed actions is omitted, whatever the remote, and rendering returns a
  panel with no primary action and three omitted secondary actions.
\<close>

theorem undefined_menu_omits_everything:
  assumes v: "cacheValid E H st" and u: "appMenu props = None"
  shows "fst (getMenuInfoMap E H (appMenu props) st) = []
     \<and> fst (renderAffordance E H props a st) = Null
     \<and> fst (renderRemoteAction E H props st) = Null
     \<and> fst (renderActions E H props st) =
         Fragment [Null, Element ''div'' [(''className'', ''actions'')] [Null, Null, Null]]
     \<and> primaryActions (fst (render E H props st)) = []"
proof -
  have idx: "computeMenuInfoMap E H (appMenu props) = []"
    by (simp add: u computeMenuInfoMap_def)
  have n: "map_of (computeMenuInfoMap E H (appMenu props)) i = None" for i
    by (simp add: idx)
  have ids: "menuIdOf b \<in> set (referencedIds b)" for b by (cases b) simp_all
  have aff: "fst (renderAffordance E H props b st) = Null" for b
    using renderAffordance_absent [OF v ids n] by simp
  have rem: "fst (renderRemoteAction E H props st) = Null"
    using aff [of PublishRepositoryAction]
    by (simp add: renderRemoteAction_def split: option.splits)
  have acts: "fst (renderActions E H props st) =
         Fragment [Null, Element ''div'' [(''className'', ''actions'')] [Null, Null, Null]]"
    using aff [of ShowInFinder] aff [of OpenInExternalEditor] aff [of ViewOnGitHub] rem
    by (simp add: renderActions_shape [OF v])
  have prim: "primaryActions (fst (render E H props st)) = []"
    by (simp add: render_def primaryActions_renderNew [OF v] rem renderClassicBlankSlate_def)
  show ?thesis
    using aff [of a] rem acts prim by (simp add: getMenuInfoMap_valid [OF v] idx)
qed

text \<open>A fresh component without a menu.\<close>

theorem undefined_menu_omits_everything_witness:
  "cacheValid sampleEnv sampleStore initialState
   \<and> appMenu (propsFor None None) = None
   \<and> fst (renderActions sampleEnv sampleStore (propsFor None None) initialState) =
       Fragment [Null, Element ''div'' [(''className'', ''actions'')] [Null, Null, Null]]
   \<and> primaryActions (fst (render sampleEnv sampleStore (propsFor None None) initialState)) = []"
proof -
  have h: "appMenu (propsFor None None) = None" by simp
  from undefined_menu_omits_everything [OF initial_valid h, of sampleEnv sampleStore] h
  show ?thesis by (simp add: initial_valid)
qed

text \<open>
  Claim C10.  When \<open>push\<close> is in the index and the remote is \<open>null\<close>, the publish
  action is rendered as the one primary action, whatever the enabled flag of the menu item.
\<close>

theorem publish_ignores_enabled:
  assumes v: "cacheValid E H st"
    and m: "map_of (computeMenuInfoMap E H (appMenu props)) ''push'' = Some menuItem"
    and r: "remote (repositoryState props) = None"
  shows "\<exists>description.
           fst (renderRemoteAction E H props st) =
             BlankslateAction ''Publish your repository to GitHub'' description
               (renderDiscoverabilityElements menuItem) ''Publish repository''
               OnPublishRepositoryClicked ''primary''
         \<and> fst (renderActions E H props st) =
             Fragment
               [Element ''div'' [(''className'', ''actions primary'')]
                  [fst (renderRemoteAction E H props st)],
                Element ''div'' [(''className'', ''actions'')]
                  [fst (renderAffordance E H props ShowInFinder st),
                   fst (renderAffordance E H props OpenInExternalEditor st),
                   fst (renderAffordance E H props ViewOnGitHub st)]]"
proof -
  have a: "fst (renderRemoteAction E H props st) =
      BlankslateAction ''Publish your repository to GitHub''
        ''This repository is currently only available on your local machine. By publishing it on GitHub you can share it, and collaborate with others.''
        (renderDiscoverabilityElements menuItem) ''Publish repository''
        OnPublishRepositoryClicked ''primary''"
    using m r by (simp add: renderRemoteAction_def renderPublishRepositoryAction_valid [OF v])
  then have nn: "fst (renderRemoteAction E H props st) \<noteq> Null" by simp
  show ?thesis
    using a renderActions_shape [OF v, of props] nn by (intro exI) (simp del: fst_conv)
qed

text \<open>The sample menu, whose \<open>push\<close> item is disabled.\<close>

theorem publish_ignores_enabled_witness:
  "cacheValid sampleEnv sampleStore initialState
   \<and> map_of (computeMenuInfoMap sampleEnv sampleStore (appMenu (propsFor (Some 0) None)))
        ''push'' =
       Some \<lparr>label = ''Push'', acceleratorKeys = [''CmdOrCtrl'', ''P''],
              parentMenuLabels = [''Repository''], enabled = False\<rparr>
   \<and> remote (repositoryState (propsFor (Some 0) None)) = None
   \<and> (\<exists>description.
        fst (renderRemoteAction sampleEnv sampleStore (propsFor (Some 0) None) initialState) =
          BlankslateAction ''Publish your repository to GitHub'' description
            (renderDiscoverabilityElements
               \<lparr>label = ''Push'', acceleratorKeys = [''CmdOrCtrl'', ''P''],
                  parentMenuLabels = [''Repository''], enabled = False\<rparr>)
            ''Publish repository'' OnPublishRepositoryClicked ''primary'')"
proof -
  have h1: "map_of (computeMenuInfoMap sampleEnv sampleStore (appMenu (propsFor (Some 0) None)))
        ''push'' =
       Some \<lparr>label = ''Push'', acceleratorKeys = [''CmdOrCtrl'', ''P''],
              parentMenuLabels = [''Repository''], enabled = False\<rparr>"
    by (simp add: sampleIndex)
  have h2: "remote (repositoryState (propsFor (Some 0) None)) = None" by simp
  from publish_ignores_enabled [OF initial_valid h1 h2] h1 h2
  show ?thesis by (simp only: initial_valid) blast
qed

end
